theory Spec2Isabelle
  imports Main
begin

section \<open>JavaScript strings\<close>

text \<open>
  The report parser works on JavaScript strings, which are sequences of UTF-16 code units.
  A code unit is modelled by its numeric value and a string by the list of its code units;
  \<open>length\<close> is the \<^verbatim>\<open>.length\<close> of the source. Values are kept as integers so that
  comparisons against the code points named in the source (for instance U+2022, the bullet)
  are evaluated on binary numerals. Every theorem below that quantifies over strings holds for
  all lists, hence for all JavaScript strings.
\<close>

type_synonym jschar = int
type_synonym jsstring = "jschar list"

definition lit :: "string \<Rightarrow> jsstring" where
  "lit s = map of_char s"

text \<open>
  \<^verbatim>\<open>WhiteSpace\<close> and \<^verbatim>\<open>LineTerminator\<close> of ECMAScript: the characters matched by \<^verbatim>\<open>\s\<close> and
  stripped by \<^verbatim>\<open>trim()\<close>: TAB, LF, VT, FF, CR, space, U+00A0, U+1680, U+2000 to U+200A, U+2028,
  U+2029, U+202F, U+205F, U+3000 and U+FEFF.
\<close>

definition isWhiteSpace :: "jschar \<Rightarrow> bool" where
  "isWhiteSpace c =
     (c = 32 \<or> (9 \<le> c \<and> c \<le> 13) \<or> c = 160 \<or> c = 5760 \<or> (8192 \<le> c \<and> c \<le> 8202)
      \<or> c = 8232 \<or> c = 8233 \<or> c = 8239 \<or> c = 8287 \<or> c = 12288 \<or> c = 65279)"

definition isLineTerminator :: "jschar \<Rightarrow> bool" where
  "isLineTerminator c = (c = 10 \<or> c = 13 \<or> c = 8232 \<or> c = 8233)"

definition isDigit :: "jschar \<Rightarrow> bool" where
  "isDigit c = (48 \<le> c \<and> c \<le> 57)"

definition trim :: "jsstring \<Rightarrow> jsstring" where
  "trim s = rev (dropWhile isWhiteSpace (rev (dropWhile isWhiteSpace s)))"

text \<open>
  \<^verbatim>\<open>s.substring(a, b)\<close> for non-negative arguments: both are clamped to the length and swapped
  when \<open>b < a\<close>. \<^verbatim>\<open>s.substring(a)\<close> is \<open>drop a s\<close>.
\<close>

definition substring :: "jsstring \<Rightarrow> nat \<Rightarrow> nat \<Rightarrow> jsstring" where
  "substring s a b = take (max a b - min a b) (drop (min a b) s)"

text \<open>\<^verbatim>\<open>s.split('\n')\<close>: splitting at one separator character; the result is never empty.\<close>

fun splitOn :: "jschar \<Rightarrow> jsstring \<Rightarrow> jsstring \<Rightarrow> jsstring list"
and splitOnStep :: "bool \<Rightarrow> jschar \<Rightarrow> jschar \<Rightarrow> jsstring \<Rightarrow> jsstring \<Rightarrow> jsstring list" where
  "splitOn sep seg [] = [rev seg]"
| "splitOn sep seg (c # cs) = splitOnStep (c = sep) sep c seg cs"
| "splitOnStep True sep c seg cs = rev seg # splitOn sep [] cs"
| "splitOnStep False sep c seg cs = splitOn sep (c # seg) cs"

text \<open>\<^verbatim>\<open>lines.join('\n')\<close>.\<close>

fun joinWith :: "jschar \<Rightarrow> jsstring list \<Rightarrow> jsstring" where
  "joinWith sep [] = []"
| "joinWith sep [x] = x"
| "joinWith sep (x # y # ys) = x @ sep # joinWith sep (y # ys)"

text \<open>
  \<^verbatim>\<open>s.lastIndexOf(pat)\<close>: the greatest index at which \<open>pat\<close> occurs in \<open>s\<close>, or \<open>-1\<close>.
  The scan keeps the index of the last occurrence seen.
\<close>

fun startsWith :: "jsstring \<Rightarrow> jsstring \<Rightarrow> bool" where
  "startsWith [] s = True"
| "startsWith (p # ps) [] = False"
| "startsWith (p # ps) (c # cs) = (p = c \<and> startsWith ps cs)"

fun lastIndexFrom :: "jsstring \<Rightarrow> int \<Rightarrow> int \<Rightarrow> jsstring \<Rightarrow> int"
and lastIndexStep :: "bool \<Rightarrow> jsstring \<Rightarrow> int \<Rightarrow> int \<Rightarrow> jsstring \<Rightarrow> int" where
  "lastIndexFrom pat i best [] = (if pat = [] then i else best)"
| "lastIndexFrom pat i best (c # cs) = lastIndexStep (startsWith pat (c # cs)) pat i best cs"
| "lastIndexStep True pat i best cs = lastIndexFrom pat (i + 1) i cs"
| "lastIndexStep False pat i best cs = lastIndexFrom pat (i + 1) best cs"

definition lastIndexOf :: "jsstring \<Rightarrow> jsstring \<Rightarrow> int" where
  "lastIndexOf s pat = lastIndexFrom pat 0 (-1) s"

text \<open>\<^verbatim>\<open>s.includes(pat)\<close>.\<close>

fun stringIncludes :: "jsstring \<Rightarrow> jsstring \<Rightarrow> bool" where
  "stringIncludes [] pat = (pat = [])"
| "stringIncludes (c # cs) pat = (startsWith pat (c # cs) \<or> stringIncludes cs pat)"

section \<open>Regular expressions\<close>

text \<open>
  The source decides nearly everything with regular expressions. They are modelled by a
  small abstract syntax and by the backtracking matcher of the ECMAScript specification
  (section "Pattern Semantics"), which returns the first successful final state, trying
  alternatives in priority order.

  A character class \<open>cls\<close> describes one code unit:
  \<open>Lit c\<close> is the code unit \<open>c\<close>; \<open>LitI u\<close> is a letter under the \<^verbatim>\<open>i\<close> flag, given by its upper
  case \<open>u\<close>; \<open>Between\<close> is \<^verbatim>\<open>[a-b]\<close>; \<open>Space\<close> is \<^verbatim>\<open>\s\<close>; \<open>Digit\<close> is \<^verbatim>\<open>\d\<close>; \<open>LineTerm\<close> is a line
  terminator; \<open>AnyOf\<close> is a union \<^verbatim>\<open>[...]\<close> and \<open>NoneOf\<close> a complement \<^verbatim>\<open>[^...]\<close>.

  Under the \<^verbatim>\<open>i\<close> flag (without \<^verbatim>\<open>u\<close>) two code units match when their canonical forms
  agree, and a code unit outside ASCII is never canonicalised into ASCII. A letter of the
  pattern therefore matches exactly its two ASCII cases.
\<close>

datatype cls = Lit jschar | LitI jschar | Between jschar jschar | Space | Digit | LineTerm
  | AnyOf "cls list" | NoneOf "cls list"

definition asciiUpper :: "jschar \<Rightarrow> jschar" where
  "asciiUpper c = (if 97 \<le> c \<and> c \<le> 122 then c - 32 else c)"

fun clsMatch :: "cls \<Rightarrow> jschar \<Rightarrow> bool"
and clsAny :: "cls list \<Rightarrow> jschar \<Rightarrow> bool" where
  "clsMatch (Lit a) c = (c = a)"
| "clsMatch (LitI u) c = (asciiUpper c = u)"
| "clsMatch (Between lo hi) c = (lo \<le> c \<and> c \<le> hi)"
| "clsMatch Space c = isWhiteSpace c"
| "clsMatch Digit c = isDigit c"
| "clsMatch LineTerm c = isLineTerminator c"
| "clsMatch (AnyOf ks) c = clsAny ks c"
| "clsMatch (NoneOf ks) c = (\<not> clsAny ks c)"
| "clsAny [] c = False"
| "clsAny (k # ks) c = (clsMatch k c \<or> clsAny ks c)"

text \<open>
  \<^item> \<open>Sym k\<close> is one code unit of the class \<open>k\<close>;
  \<^item> \<open>Star\<close> is the greedy \<^verbatim>\<open>*\<close> and \<open>LazyStar\<close> the lazy \<^verbatim>\<open>*?\<close>;
  \<^item> \<open>Look\<close> is the lookahead \<^verbatim>\<open>(?=...)\<close>, which keeps the captures of its first match;
  \<^item> \<open>Grp n\<close> is the capturing group number \<open>n\<close>;
  \<^item> \<open>Bol\<close> is \<^verbatim>\<open>^\<close> under the \<^verbatim>\<open>m\<close> flag.

  The state holds the index, the code unit before it (for \<open>Bol\<close>), the rest of the input
  and the captures made so far (latest first).
\<close>

datatype rx = Eps | Sym cls | Seq rx rx | Alt rx rx | Star rx | LazyStar rx
  | Look rx | Grp nat rx | Bol

type_synonym captures = "(nat \<times> jsstring) list"

datatype mstate = MState (mpos: int) (mprev: "jschar option") (mrest: jsstring) (mcaps: captures)

text \<open>
  The continuation of the specification's matchers is kept as a stack of frames: patterns
  still to be matched (\<open>Match\<close>), the end of a capturing group (\<open>Close\<close>, with the index and
  input at its start) and the end of one iteration of a loop (\<open>IterG\<close>, \<open>IterL\<close>, with the
  length of the input at the start of the iteration). An iteration that consumed nothing is
  rejected, as in \<^verbatim>\<open>RepeatMatcher\<close>.
\<close>

datatype frame = Match rx | Close nat int jsstring | IterG rx nat | IterL rx nat

fun atLineStart :: "jschar option \<Rightarrow> bool" where
  "atLineStart None = True"
| "atLineStart (Some c) = isLineTerminator c"

fun rxWeight :: "rx \<Rightarrow> nat" where
  "rxWeight (Seq e f) = rxWeight e + rxWeight f + 1"
| "rxWeight (Alt e f) = rxWeight e + rxWeight f + 1"
| "rxWeight (Star e) = rxWeight e + 2"
| "rxWeight (LazyStar e) = rxWeight e + 2"
| "rxWeight (Look e) = rxWeight e + 2"
| "rxWeight (Grp n e) = rxWeight e + 2"
| "rxWeight e = 1"

fun frameWeight :: "nat \<Rightarrow> frame \<Rightarrow> nat" where
  "frameWeight l (Match e) = rxWeight e"
| "frameWeight l (Close n i r) = 1"
| "frameWeight l (IterG e n) = (if l < n then rxWeight e + 3 else 0)"
| "frameWeight l (IterL e n) = (if l < n then rxWeight e + 3 else 0)"

definition stackWeight :: "nat \<Rightarrow> frame list \<Rightarrow> nat" where
  "stackWeight l ks = sum_list (map (frameWeight l) ks)"

function run :: "frame list \<Rightarrow> mstate \<Rightarrow> mstate option"
and symNext :: "bool \<Rightarrow> frame list \<Rightarrow> int \<Rightarrow> jschar \<Rightarrow> jsstring \<Rightarrow> captures \<Rightarrow> mstate option"
and orElse :: "mstate option \<Rightarrow> frame list \<Rightarrow> mstate \<Rightarrow> mstate option"
and lookNext :: "mstate option \<Rightarrow> frame list \<Rightarrow> mstate \<Rightarrow> mstate option" where
  "run [] x = Some x"
| "run (Match Eps # ks) x = run ks x"
| "run (Match (Sym k) # ks) (MState i b [] g) = None"
| "run (Match (Sym k) # ks) (MState i b (a # r) g) = symNext (clsMatch k a) ks i a r g"
| "run (Match (Seq e f) # ks) x = run (Match e # Match f # ks) x"
| "run (Match (Alt e f) # ks) x = orElse (run (Match e # ks) x) (Match f # ks) x"
| "run (Match (Star e) # ks) x = orElse (run (Match e # IterG e (length (mrest x)) # ks) x) ks x"
| "run (Match (LazyStar e) # ks) x =
     orElse (run ks x) (Match e # IterL e (length (mrest x)) # ks) x"
| "run (Match (Look e) # ks) x = lookNext (run [Match e] x) ks x"
| "run (Match (Grp n e) # ks) x = run (Match e # Close n (mpos x) (mrest x) # ks) x"
| "run (Match Bol # ks) x = (if atLineStart (mprev x) then run ks x else None)"
| "run (Close n i0 r0 # ks) (MState i b r g) =
     run ks (MState i b r ((n, take (nat (i - i0)) r0) # g))"
| "run (IterG e n # ks) x = (if length (mrest x) < n then run (Match (Star e) # ks) x else None)"
| "run (IterL e n # ks) x = (if length (mrest x) < n then run (Match (LazyStar e) # ks) x else None)"
| "symNext True ks i a r g = run ks (MState (i + 1) (Some a) r g)"
| "symNext False ks i a r g = None"
| "orElse (Some y) ks x = Some y"
| "orElse None ks x = run ks x"
| "lookNext None ks x = None"
| "lookNext (Some y) ks x = run ks (MState (mpos x) (mprev x) (mrest x) (mcaps y))"
  by pat_completeness auto
termination
  by (relation "inv_image (less_than <*lex*> less_than)
      (\<lambda>x. case x of
          Inl (Inl (ks, st)) \<Rightarrow> (length (mrest st), 2 * stackWeight (length (mrest st)) ks)
        | Inl (Inr (t, ks, i, a, r, g)) \<Rightarrow> (length r, 2 * stackWeight (length r) ks + 1)
        | Inr (Inl (z, ks, st)) \<Rightarrow> (length (mrest st), 2 * stackWeight (length (mrest st)) ks + 1)
        | Inr (Inr (z, ks, st)) \<Rightarrow> (length (mrest st), 2 * stackWeight (length (mrest st)) ks + 1))")
     (auto simp: stackWeight_def)

definition rxMatch :: "rx \<Rightarrow> mstate \<Rightarrow> mstate option" where
  "rxMatch e x = run [Match e] x"

text \<open>
  \<open>rxSearch\<close> is the scan of \<^verbatim>\<open>RegExpBuiltinExec\<close>: try the pattern at the current index and
  move one code unit to the right on failure. It returns the index of the match and the
  final state.
\<close>

fun rxSearch :: "rx \<Rightarrow> int \<Rightarrow> jschar option \<Rightarrow> jsstring \<Rightarrow> (int \<times> mstate) option"
and rxSearchStep :: "mstate option \<Rightarrow> rx \<Rightarrow> int \<Rightarrow> jschar option \<Rightarrow> jsstring \<Rightarrow> (int \<times> mstate) option" where
  "rxSearch e i b r = rxSearchStep (rxMatch e (MState i b r [])) e i b r"
| "rxSearchStep (Some y) e i b r = Some (i, y)"
| "rxSearchStep None e i b [] = None"
| "rxSearchStep None e i b (c # cs) = rxSearch e (i + 1) (Some c) cs"

text \<open>\<^verbatim>\<open>re.test(s)\<close> for a pattern without the \<^verbatim>\<open>g\<close> flag.\<close>

definition rxTest :: "rx \<Rightarrow> jsstring \<Rightarrow> bool" where
  "rxTest e s = (rxSearch e 0 None s \<noteq> None)"

text \<open>
  \<^verbatim>\<open>s.match(re)\<close> for a pattern without the \<^verbatim>\<open>g\<close> flag: \<open>None\<close> is \<^verbatim>\<open>null\<close>; otherwise the
  index, the matched text and the captures. \<open>capturedGroup n\<close> is \<^verbatim>\<open>match[n]\<close>, \<open>None\<close> when the group
  did not take part.
\<close>

record rxresult =
  index :: nat
  matched :: jsstring
  groups :: captures

fun rxResult :: "jsstring \<Rightarrow> (int \<times> mstate) option \<Rightarrow> rxresult option" where
  "rxResult s None = None"
| "rxResult s (Some (i, y)) =
     Some \<lparr>index = nat i, matched = take (nat (mpos y - i)) (drop (nat i) s), groups = mcaps y\<rparr>"

definition rxExec :: "rx \<Rightarrow> jsstring \<Rightarrow> rxresult option" where
  "rxExec e s = rxResult s (rxSearch e 0 None s)"

definition capturedGroup :: "nat \<Rightarrow> rxresult \<Rightarrow> jsstring option" where
  "capturedGroup n m = map_of (groups m) n"

text \<open>
  \<^verbatim>\<open>s.split(re)\<close>, the algorithm of \<^verbatim>\<open>RegExp.prototype[@@split]\<close>: \<open>q\<close> scans the string and
  \<open>seg\<close> holds, reversed, the code units between the end \<open>p\<close> of the last separator and \<open>q\<close>.
  A match at \<open>q\<close> that ends at \<open>p\<close> (an empty match right after the last cut) is skipped;
  any other match cuts the segment, appends the captures \<open>1..n\<close> of the match (\<open>None\<close> is
  \<^verbatim>\<open>undefined\<close>) and continues at its end. The remainder is the last element.
\<close>

fun groupCount :: "rx \<Rightarrow> nat" where
  "groupCount (Seq e f) = max (groupCount e) (groupCount f)"
| "groupCount (Alt e f) = max (groupCount e) (groupCount f)"
| "groupCount (Star e) = groupCount e"
| "groupCount (LazyStar e) = groupCount e"
| "groupCount (Look e) = groupCount e"
| "groupCount (Grp n e) = max n (groupCount e)"
| "groupCount e = 0"

definition groupsOf :: "nat \<Rightarrow> captures \<Rightarrow> jsstring option list" where
  "groupsOf n g = map (map_of g) [1..<Suc n]"

function splitScan :: "rx \<Rightarrow> nat \<Rightarrow> int \<Rightarrow> jschar option \<Rightarrow> jsstring \<Rightarrow> jsstring \<Rightarrow> jsstring option list"
and splitTry :: "mstate option \<Rightarrow> rx \<Rightarrow> nat \<Rightarrow> int \<Rightarrow> jschar option \<Rightarrow> jsstring \<Rightarrow> jschar \<Rightarrow> jsstring
     \<Rightarrow> jsstring option list"
and splitCut :: "nat \<Rightarrow> captures \<Rightarrow> rx \<Rightarrow> nat \<Rightarrow> int \<Rightarrow> jschar option \<Rightarrow> jsstring \<Rightarrow> jschar \<Rightarrow> jsstring
     \<Rightarrow> jsstring option list" where
  "splitScan e n q b seg [] = [Some (rev seg)]"
| "splitScan e n q b seg (c # cs) = splitTry (rxMatch e (MState q b (c # cs) [])) e n q b seg c cs"
| "splitTry None e n q b seg c cs = splitScan e n (q + 1) (Some c) (c # seg) cs"
| "splitTry (Some y) e n q b seg c cs = splitCut (nat (mpos y - q)) (mcaps y) e n q b seg c cs"
| "splitCut 0 g e n q b [] c cs = splitScan e n (q + 1) (Some c) [c] cs"
| "splitCut 0 g e n q b (s # seg) c cs =
     Some (rev (s # seg)) # groupsOf n g @ splitScan e n q b [] (c # cs)"
| "splitCut (Suc m) g e n q b seg c cs =
     Some (rev seg) # groupsOf n g
       @ splitScan e n (q + 1 + int m) (Some (last (c # take m cs))) [] (drop m cs)"
  by pat_completeness auto
termination
  by (relation "inv_image (less_than <*lex*> less_than <*lex*> less_than)
      (\<lambda>x. case x of
          Inl (e, n, q, b, seg, r) \<Rightarrow> (length r, length seg, 2::nat)
        | Inr (Inl (z, e, n, q, b, seg, c, cs)) \<Rightarrow> (Suc (length cs), length seg, 1)
        | Inr (Inr (m, g, e, n, q, b, seg, c, cs)) \<Rightarrow> (Suc (length cs), length seg, 0))") auto

definition rxSplit :: "rx \<Rightarrow> jsstring \<Rightarrow> jsstring option list" where
  "rxSplit e s =
     (if s = [] then (if rxMatch e (MState 0 None [] []) = None then [Some []] else [])
      else splitScan e (groupCount e) 0 None [] s)"

text \<open>
  \<^verbatim>\<open>s.replace(re, repl)\<close> for a pattern with the \<^verbatim>\<open>g\<close> flag and a replacement without \<^verbatim>\<open>$\<close>:
  every match, found from left to right, is replaced; after an empty match the scan moves
  one code unit on.
\<close>

function replaceScan :: "rx \<Rightarrow> jsstring \<Rightarrow> int \<Rightarrow> jschar option \<Rightarrow> jsstring \<Rightarrow> jsstring"
and replaceTry :: "mstate option \<Rightarrow> rx \<Rightarrow> jsstring \<Rightarrow> int \<Rightarrow> jschar \<Rightarrow> jsstring \<Rightarrow> jsstring"
and replaceCut :: "nat \<Rightarrow> rx \<Rightarrow> jsstring \<Rightarrow> int \<Rightarrow> jschar \<Rightarrow> jsstring \<Rightarrow> jsstring" where
  "replaceScan e repl q b [] = (if rxMatch e (MState q b [] []) = None then [] else repl)"
| "replaceScan e repl q b (c # cs) = replaceTry (rxMatch e (MState q b (c # cs) [])) e repl q c cs"
| "replaceTry None e repl q c cs = c # replaceScan e repl (q + 1) (Some c) cs"
| "replaceTry (Some y) e repl q c cs = replaceCut (nat (mpos y - q)) e repl q c cs"
| "replaceCut 0 e repl q c cs = repl @ c # replaceScan e repl (q + 1) (Some c) cs"
| "replaceCut (Suc m) e repl q c cs =
     repl @ replaceScan e repl (q + 1 + int m) (Some (last (c # take m cs))) (drop m cs)"
  by pat_completeness auto
termination
  by (relation "inv_image (less_than <*lex*> less_than)
      (\<lambda>x. case x of
          Inl (e, repl, q, b, r) \<Rightarrow> (length r, 2::nat)
        | Inr (Inl (z, e, repl, q, c, cs)) \<Rightarrow> (Suc (length cs), 1)
        | Inr (Inr (m, e, repl, q, c, cs)) \<Rightarrow> (Suc (length cs), 0))") auto

definition replaceAll :: "rx \<Rightarrow> jsstring \<Rightarrow> jsstring \<Rightarrow> jsstring" where
  "replaceAll e repl s = replaceScan e repl 0 None s"

text \<open>
  \<^verbatim>\<open>s.match(re)\<close> for a pattern with the \<^verbatim>\<open>g\<close> flag: the texts of all matches from left to
  right; the source only reads the number of matches (\<^verbatim>\<open>null\<close> counts as none).
\<close>

function matchScan :: "rx \<Rightarrow> int \<Rightarrow> jschar option \<Rightarrow> jsstring \<Rightarrow> jsstring list"
and matchTry :: "mstate option \<Rightarrow> rx \<Rightarrow> int \<Rightarrow> jschar \<Rightarrow> jsstring \<Rightarrow> jsstring list"
and matchCut :: "nat \<Rightarrow> rx \<Rightarrow> int \<Rightarrow> jschar \<Rightarrow> jsstring \<Rightarrow> jsstring list" where
  "matchScan e q b [] = (if rxMatch e (MState q b [] []) = None then [] else [[]])"
| "matchScan e q b (c # cs) = matchTry (rxMatch e (MState q b (c # cs) [])) e q c cs"
| "matchTry None e q c cs = matchScan e (q + 1) (Some c) cs"
| "matchTry (Some y) e q c cs = matchCut (nat (mpos y - q)) e q c cs"
| "matchCut 0 e q c cs = [] # matchScan e (q + 1) (Some c) cs"
| "matchCut (Suc m) e q c cs =
     (c # take m cs) # matchScan e (q + 1 + int m) (Some (last (c # take m cs))) (drop m cs)"
  by pat_completeness auto
termination
  by (relation "inv_image (less_than <*lex*> less_than)
      (\<lambda>x. case x of
          Inl (e, q, b, r) \<Rightarrow> (length r, 2::nat)
        | Inr (Inl (z, e, q, c, cs)) \<Rightarrow> (Suc (length cs), 1)
        | Inr (Inr (m, e, q, c, cs)) \<Rightarrow> (Suc (length cs), 0))") auto

definition matchAll :: "rx \<Rightarrow> jsstring \<Rightarrow> jsstring list" where
  "matchAll e s = matchScan e 0 None s"

subsection \<open>Writing patterns\<close>

definition sym :: "char \<Rightarrow> rx" where
  "sym c = Sym (Lit (of_char c))"

definition symI :: "char \<Rightarrow> rx" where
  "symI c = Sym (LitI (asciiUpper (of_char c)))"

fun seqs :: "rx list \<Rightarrow> rx" where
  "seqs [] = Eps"
| "seqs [e] = e"
| "seqs (e # es) = Seq e (seqs es)"

fun alts :: "rx list \<Rightarrow> rx" where
  "alts [] = Eps"
| "alts [e] = e"
| "alts (e # es) = Alt e (alts es)"

definition str :: "string \<Rightarrow> rx" where
  "str s = seqs (map sym s)"

definition strI :: "string \<Rightarrow> rx" where
  "strI s = seqs (map symI s)"

definition maybe :: "rx \<Rightarrow> rx" where
  "maybe e = Alt e Eps"

definition many1 :: "rx \<Rightarrow> rx" where
  "many1 e = Seq e (Star e)"

definition ws :: rx where
  "ws = Sym Space"

definition nonWs :: rx where
  "nonWs = Sym (NoneOf [Space])"

definition digit :: rx where
  "digit = Sym Digit"

definition newline :: rx where
  "newline = Sym (Lit 10)"

definition notNewline :: rx where
  "notNewline = Sym (NoneOf [Lit 10])"

definition anyChar :: rx where
  "anyChar = Sym (NoneOf [])"

definition dot :: rx where
  "dot = Sym (NoneOf [LineTerm])"

definition upperAZ :: rx where
  "upperAZ = Sym (Between 65 90)"

definition lowerAZ :: rx where
  "lowerAZ = Sym (Between 97 122)"

section \<open>The text normalizer\<close>

text \<open>
  \<^verbatim>\<open>normalizeText\<close>, step by step as in the source: Unicode spaces to a space, line breaks to
  \<^verbatim>\<open>\n\<close>, three or more newlines to two, runs of other white space to one space, every line
  trimmed, and a final trim.
\<close>

definition unicodeSpace :: rx where
  "unicodeSpace =
     Sym (AnyOf [Lit 160, Lit 5760, Lit 6158, Between 8192 8202, Lit 8239, Lit 8287, Lit 12288])"

definition normalizeText :: "jsstring \<Rightarrow> jsstring" where
  "normalizeText text =
     (if text = [] then []
      else
        let t1 = replaceAll unicodeSpace (lit '' '') text;
            t2 = replaceAll (Seq (Sym (Lit 13)) newline) (lit ''\<newline>'') t1;
            t3 = replaceAll (Sym (Lit 13)) (lit ''\<newline>'') t2;
            t4 = replaceAll (seqs [newline, newline, newline, Star newline]) (lit ''\<newline>\<newline>'') t3;
            t5 = replaceAll (many1 (Sym (NoneOf [NoneOf [Space], Lit 10]))) (lit '' '') t4;
            lines = map trim (splitOn 10 [] t5)
        in trim (joinWith 10 lines))"

section \<open>The section classifier\<close>

text \<open>
  \<^verbatim>\<open>String.prototype.toLowerCase\<close> follows the Unicode case tables of the host. The functions
  that call it take it as the argument \<open>lower\<close>, so that what is proved holds for every
  such table. \<open>asciiLowerCase\<close> is its value on strings of ASCII code units, used to run the
  functions on concrete ASCII texts.
\<close>

type_synonym caseFold = "jsstring \<Rightarrow> jsstring"

definition asciiLowerCase :: caseFold where
  "asciiLowerCase s = map (\<lambda>c. if 65 \<le> c \<and> c \<le> 90 then c + 32 else c) s"

text \<open>Shorthands: \<^verbatim>\<open>\s*\<close>, \<^verbatim>\<open>\s+\<close>, \<^verbatim>\<open>\d+\<close> and an optional letter under the \<^verbatim>\<open>i\<close> flag.\<close>

definition sp0 :: rx where
  "sp0 = Star ws"

definition sp1 :: rx where
  "sp1 = many1 ws"

definition digits :: rx where
  "digits = many1 digit"

definition optI :: "char \<Rightarrow> rx" where
  "optI c = maybe (symI c)"

text \<open>
  The table \<^verbatim>\<open>sectionPatterns\<close> of \<^verbatim>\<open>identifyHealthCheckSection\<close>, in the order of the object
  literal, which is the order \<^verbatim>\<open>Object.entries\<close> enumerates.
\<close>

definition sectionPatterns :: "(jsstring \<times> rx list) list" where
  "sectionPatterns = [
    (lit ''Content Modelling'',
      [seqs [strI ''content'', sp0, strI ''modelling''],
       seqs [strI ''content'', sp0, strI ''modeling''],
       seqs [strI ''content'', sp0, strI ''model'']]),
    (lit ''Actions Required'',
      [seqs [strI ''action'', optI CHR ''s'', sp0, strI ''required''],
       seqs [strI ''action'', sp0, strI ''items'']]),
    (lit ''Content Types'',
      [seqs [strI ''content'', sp0, strI ''type'', optI CHR ''s'', sp0, strI ''title''],
       seqs [strI ''rarely'', sp0, strI ''used'', sp0, strI ''content'', sp0, strI ''types''],
       seqs [strI ''unused'', sp0, strI ''content'', sp0, strI ''types'']]),
    (lit ''Global Fields'',
      [seqs [strI ''global'', sp0, strI ''fields''],
       seqs [strI ''unused'', sp0, strI ''global'', sp0, strI ''fields'']]),
    (lit ''Areas of Opportunities'',
      [seqs [strI ''area'', optI CHR ''s'', sp0, strI ''of'', sp0, strI ''opportunit'']]),
    (lit ''Naming Standards'',
      [seqs [strI ''naming'', sp0, strI ''standards''],
       seqs [strI ''naming'', sp0, strI ''convention''],
       seqs [strI ''recommendation'', sp0, strI ''message''],
       seqs [strI ''recommended'', sp0, strI ''title'']]),
    (lit ''Validation Rules'',
      [seqs [strI ''validation'', sp0, strI ''rules''],
       seqs [strI ''field'', sp0, strI ''name'']]),
    (lit ''Descriptions'',
      [seqs [strI ''description'', optI CHR ''s'', symI CHR '':''],
       seqs [strI ''content'', sp0, strI ''types'', Star dot, strI ''description'']]),
    (lit ''Entries'',
      [strI ''entries'',
       seqs [strI ''entry'', sp0, strI ''count'']]),
    (lit ''Assets'',
      [seqs [strI ''asset'', optI CHR ''s''],
       strI ''media'']),
    (lit ''Workflows'',
      [seqs [strI ''workflow'', optI CHR ''s''],
       strI ''publishing'']),
    (lit ''Webhooks'',
      [seqs [strI ''webhook'', optI CHR ''s'']]),
    (lit ''Extensions'',
      [seqs [strI ''extension'', optI CHR ''s''],
       seqs [strI ''custom'', sp0, strI ''field'', optI CHR ''s'']]),
    (lit ''Users & Roles'',
      [seqs [strI ''user'', optI CHR ''s'', sp0, Grp 1 (Alt (symI CHR ''&'') (strI ''and'')), sp0,
             strI ''role'', optI CHR ''s''],
       seqs [strI ''permission'', optI CHR ''s'']]),
    (lit ''Security'',
      [strI ''security'',
       seqs [strI ''api'', sp0, strI ''key'', optI CHR ''s''],
       seqs [strI ''token'', optI CHR ''s'']]),
    (lit ''Performance'',
      [strI ''performance'',
       strI ''optimization'']),
    (lit ''Recommendations'',
      [seqs [strI ''recommendation'', optI CHR ''s''],
       seqs [strI ''suggestion'', optI CHR ''s'']]),
    (lit ''Stack Overview'',
      [seqs [strI ''stack'', sp0, strI ''overview''],
       seqs [strI ''stack'', sp0, strI ''info''],
       seqs [strI ''stack'', sp0, strI ''details'']]),
    (lit ''Locales'',
      [seqs [strI ''locale'', optI CHR ''s''],
       seqs [strI ''language'', optI CHR ''s'']]),
    (lit ''Environments'',
      [seqs [strI ''environment'', optI CHR ''s''],
       seqs [strI ''branche'', optI CHR ''s'']])]"

text \<open>
  The two nested \<^verbatim>\<open>for\<close> loops: the inner one returns at the first pattern that matches,
  the outer one at the first section that has such a pattern.
\<close>

fun anyPatternMatches :: "rx list \<Rightarrow> jsstring \<Rightarrow> bool" where
  "anyPatternMatches [] textLower = False"
| "anyPatternMatches (pattern # patterns) textLower =
     (if rxTest pattern textLower then True else anyPatternMatches patterns textLower)"

fun firstSection :: "(jsstring \<times> rx list) list \<Rightarrow> jsstring \<Rightarrow> jsstring" where
  "firstSection [] textLower = lit ''General''"
| "firstSection ((section, patterns) # entries) textLower =
     (if anyPatternMatches patterns textLower then section else firstSection entries textLower)"

definition identifyHealthCheckSection :: "caseFold \<Rightarrow> jsstring \<Rightarrow> jsstring" where
  "identifyHealthCheckSection lower text =
     firstSection sectionPatterns (substring (lower text) 0 300)"

section \<open>The table detector\<close>

definition containsTable :: "jsstring \<Rightarrow> bool" where
  "containsTable text =
     (if rxTest (seqs [strI ''displaying'', sp1, digits, sp1, maybe (Grp 1 (Seq (strI ''of'') sp1)),
                       digits, sp0, strI ''record'', optI CHR ''s'']) text
      then True
      else if rxTest (alts [seqs [strI ''content'', sp0, strI ''type'', optI CHR ''s'', sp0, strI ''title''],
                            seqs [strI ''created'', sp0, strI ''on''],
                            seqs [strI ''field'', sp0, strI ''name''],
                            strI ''recommendation'']) text
      then True
      else False)"

section \<open>The chunk splitter\<close>

text \<open>
  A \<^verbatim>\<open>DocumentChunk\<close> with its \<^verbatim>\<open>metadata\<close> flattened; \<open>sectionLabel\<close> is the field
  \<^verbatim>\<open>metadata.section\<close>. The \<^verbatim>\<open>id\<close> of a chunk is a fresh random UUID that nothing reads; it is
  left out.
\<close>

record chunk =
  content :: jsstring
  sectionLabel :: jsstring
  chunkIndex :: nat
  startChar :: nat
  endChar :: nat

definition tableSuffix :: jsstring where
  "tableSuffix = lit '' - Table Data''"

subsection \<open>\<^verbatim>\<open>splitLargeSection\<close>\<close>

text \<open>
  The state of the \<^verbatim>\<open>while\<close> loop: the shared array \<^verbatim>\<open>chunks\<close> the function pushes to, the
  counter \<^verbatim>\<open>chunksCreated\<close> and the window start \<^verbatim>\<open>start\<close>.
\<close>

record splitState =
  chunksOut :: "chunk list"
  chunksCreated :: nat
  start :: nat

text \<open>
  \<^verbatim>\<open>Math.max(...bs)\<close>: \<open>None\<close> is \<^verbatim>\<open>-Infinity\<close>, the maximum of no arguments.
  \<^verbatim>\<open>b > maxSize / 3\<close> compares an integer with a quotient and is \<open>int maxSize < 3 * b\<close>.
\<close>

fun maxOf :: "int list \<Rightarrow> int option" where
  "maxOf [] = None"
| "maxOf (b # bs) = (case maxOf bs of None \<Rightarrow> Some b | Some m \<Rightarrow> Some (max b m))"

definition windowEnd :: "jsstring \<Rightarrow> nat \<Rightarrow> nat \<Rightarrow> nat" where
  "windowEnd text maxSize start0 =
     (let end0 = min (start0 + maxSize) (length text) in
      if end0 < length text then
        let searchArea = substring text start0 end0;
            breakPoints = [lastIndexOf searchArea (lit ''\<newline>\<newline>''),
                           lastIndexOf searchArea (lit ''. ''),
                           lastIndexOf searchArea (lit ''\<newline>''),
                           lastIndexOf searchArea (lit '', '')];
            bestBreak = maxOf (filter (\<lambda>b. int maxSize < 3 * b) breakPoints)
        in (case bestBreak of
              None \<Rightarrow> end0
            | Some b \<Rightarrow> if 0 < b then nat (int start0 + b + 1) else end0)
      else end0)"

definition splitStep ::
  "jsstring \<Rightarrow> jsstring \<Rightarrow> nat \<Rightarrow> nat \<Rightarrow> nat \<Rightarrow> nat \<Rightarrow> splitState \<Rightarrow> splitState" where
  "splitStep text sectionName maxSize overlap startChunkIndex globalCharIndex st =
     (let end1 = windowEnd text maxSize (start st);
          chunkText = trim (substring text (start st) end1);
          st1 = (if chunkText \<noteq> [] \<and> 20 < length chunkText
                 then st\<lparr>chunksOut := chunksOut st @
                          [\<lparr>content = chunkText, sectionLabel = sectionName,
                            chunkIndex = startChunkIndex + chunksCreated st,
                            startChar = globalCharIndex + start st,
                            endChar = globalCharIndex + end1\<rparr>],
                        chunksCreated := chunksCreated st + 1\<rparr>
                 else st);
          nextStart = int end1 - int overlap
      in st1\<lparr>start := (if int (start st) < nextStart then nat nextStart else end1)\<rparr>)"

text \<open>
  The loop itself. It need not terminate (with \<open>maxSize = 0\<close> the window never moves), so it
  is a partial function: \<open>None\<close> stands for a call that does not return.
\<close>

partial_function (option) splitLoop ::
  "jsstring \<Rightarrow> jsstring \<Rightarrow> nat \<Rightarrow> nat \<Rightarrow> nat \<Rightarrow> nat \<Rightarrow> splitState \<Rightarrow> splitState option" where
  "splitLoop text sectionName maxSize overlap startChunkIndex globalCharIndex st =
     (if start st < length text
      then splitLoop text sectionName maxSize overlap startChunkIndex globalCharIndex
             (splitStep text sectionName maxSize overlap startChunkIndex globalCharIndex st)
      else Some st)"

text \<open>The result is the array after the pushes together with the returned count.\<close>

definition splitLargeSection ::
  "jsstring \<Rightarrow> jsstring \<Rightarrow> nat \<Rightarrow> nat \<Rightarrow> chunk list \<Rightarrow> nat \<Rightarrow> nat \<Rightarrow> (chunk list \<times> nat) option" where
  "splitLargeSection text sectionName maxSize overlap chunks startChunkIndex globalCharIndex =
     map_option (\<lambda>st. (chunksOut st, chunksCreated st))
       (splitLoop text sectionName maxSize overlap startChunkIndex globalCharIndex
          \<lparr>chunksOut = chunks, chunksCreated = 0, start = 0\<rparr>)"

subsection \<open>\<^verbatim>\<open>splitTableContent\<close>\<close>

record tableState =
  tableChunks :: "chunk list"
  currentChunk :: jsstring
  tableIndex :: nat
  currentStartChar :: nat

definition tableHeaderPattern :: rx where
  "tableHeaderPattern =
     seqs [strI ''displaying'', sp1, digits, LazyStar dot, strI ''record'', optI CHR ''s'', sp0]"

definition tableLine :: "nat \<Rightarrow> jsstring \<Rightarrow> jsstring \<Rightarrow> tableState \<Rightarrow> jsstring \<Rightarrow> tableState" where
  "tableLine maxSize sectionName header st line =
     (let st1 = (if maxSize < length (currentChunk st) + length line + 1 \<and> 0 < length (currentChunk st)
                 then \<lparr>tableChunks = tableChunks st @
                          [\<lparr>content = trim (currentChunk st), sectionLabel = sectionName @ tableSuffix,
                            chunkIndex = tableIndex st,
                            startChar = currentStartChar st,
                            endChar = currentStartChar st + length (currentChunk st)\<rparr>],
                       currentChunk = header,
                       tableIndex = tableIndex st + 1,
                       currentStartChar = currentStartChar st + length (currentChunk st)\<rparr>
                 else st)
      in st1\<lparr>currentChunk := currentChunk st1 @ (if currentChunk st1 \<noteq> [] then lit ''\<newline>'' else []) @ line\<rparr>)"

definition splitTableContent :: "jsstring \<Rightarrow> nat \<Rightarrow> jsstring \<Rightarrow> nat \<Rightarrow> nat \<Rightarrow> chunk list" where
  "splitTableContent tableContent maxSize sectionName startIndex startChar0 =
     (let lines = splitOn 10 [] tableContent;
          header = (case rxExec tableHeaderPattern tableContent of None \<Rightarrow> [] | Some m \<Rightarrow> matched m);
          st = foldl (tableLine maxSize sectionName header)
                 \<lparr>tableChunks = [], currentChunk = [], tableIndex = startIndex,
                  currentStartChar = startChar0\<rparr> lines
      in if 0 < length (trim (currentChunk st))
         then tableChunks st @
                [\<lparr>content = trim (currentChunk st), sectionLabel = sectionName @ tableSuffix,
                  chunkIndex = tableIndex st,
                  startChar = currentStartChar st,
                  endChar = currentStartChar st + length (currentChunk st)\<rparr>]
         else tableChunks st)"

subsection \<open>\<^verbatim>\<open>createHealthCheckChunks\<close>\<close>

text \<open>
  The three ways of cutting the text into sections. \<^verbatim>\<open>split\<close> inserts the text of capture
  group 1 of \<^verbatim>\<open>mainSectionPattern\<close> after every cut; the filter drops \<^verbatim>\<open>undefined\<close>, empty
  and blank elements.
\<close>

definition mainSectionPattern :: rx where
  "mainSectionPattern =
     Seq newline (Look (Grp 1 (alts [
       seqs [strI ''Content'', sp0, strI ''Modelling''],
       seqs [strI ''Actions'', sp0, strI ''Required''],
       seqs [strI ''Areas'', sp0, strI ''of'', sp0, strI ''Opportunities''],
       seqs [strI ''Global'', sp0, strI ''Fields''],
       seqs [strI ''Naming'', sp0, strI ''Standards''],
       seqs [strI ''Validation'', sp0, strI ''Rules''],
       seqs [strI ''Stack'', sp0, strI ''Overview''],
       strI ''Security'',
       strI ''Performance'',
       strI ''Recommendations'',
       strI ''Entries'',
       strI ''Assets'',
       strI ''Workflows'',
       strI ''Webhooks'',
       strI ''Extensions'',
       strI ''Users'',
       strI ''Locales'',
       strI ''Environments''])))"

definition bulletPattern :: rx where
  "bulletPattern = Seq newline (Look (seqs [Sym (Lit 8226), sp1, upperAZ, lowerAZ]))"

definition paragraphPattern :: rx where
  "paragraphPattern = seqs [newline, many1 newline]"

definition tableStartPattern :: rx where
  "tableStartPattern = seqs [strI ''Displaying'', sp1, digits]"

fun nonBlank :: "jsstring option list \<Rightarrow> jsstring list" where
  "nonBlank [] = []"
| "nonBlank (None # xs) = nonBlank xs"
| "nonBlank (Some s # xs) = (if s \<noteq> [] \<and> 0 < length (trim s) then s # nonBlank xs else nonBlank xs)"

definition sectionsOf :: "jsstring \<Rightarrow> jsstring list" where
  "sectionsOf text =
     (let mainSections = nonBlank (rxSplit mainSectionPattern text) in
      if 1 < length mainSections then mainSections
      else
        let bulletSections = nonBlank (rxSplit bulletPattern text) in
        if 1 < length bulletSections then bulletSections
        else nonBlank (rxSplit paragraphPattern text))"

text \<open>
  The state of the main loop: the array \<^verbatim>\<open>chunks\<close>, and the local variables
  \<^verbatim>\<open>globalCharIndex\<close> and \<^verbatim>\<open>chunkIndex\<close> (here \<open>nextIndex\<close>, since the chunk field has the name).
\<close>

record loopState =
  chunks :: "chunk list"
  globalCharIndex :: nat
  nextIndex :: nat

text \<open>
  The branch for an oversized section in which the table detector fires and
  \<^verbatim>\<open>Displaying <digits>\<close> is found at a positive index \<open>i\<close>.
\<close>

definition tableBranch :: "nat \<Rightarrow> jsstring \<Rightarrow> jsstring \<Rightarrow> nat \<Rightarrow> loopState \<Rightarrow> loopState" where
  "tableBranch maxChunkSize trimmedSection sectionName i st =
     (let beforeTable = trim (substring trimmedSection 0 i);
          st1 = (if 50 < length beforeTable
                 then st\<lparr>chunks := chunks st @
                          [\<lparr>content = beforeTable, sectionLabel = sectionName,
                            chunkIndex = nextIndex st,
                            startChar = globalCharIndex st,
                            endChar = globalCharIndex st + length beforeTable\<rparr>],
                        nextIndex := nextIndex st + 1\<rparr>
                 else st);
          tableContent = trim (drop i trimmedSection)
      in if 0 < length tableContent then
           if maxChunkSize * 2 < length tableContent then
             let tableChunks = splitTableContent tableContent maxChunkSize sectionName
                                 (nextIndex st1) (globalCharIndex st1 + i)
             in st1\<lparr>chunks := chunks st1 @ tableChunks,
                    nextIndex := nextIndex st1 + length tableChunks\<rparr>
           else st1\<lparr>chunks := chunks st1 @
                      [\<lparr>content = tableContent, sectionLabel = sectionName @ tableSuffix,
                        chunkIndex = nextIndex st1,
                        startChar = globalCharIndex st1 + i,
                        endChar = globalCharIndex st1 + length trimmedSection\<rparr>],
                    nextIndex := nextIndex st1 + 1\<rparr>
         else st1)"

text \<open>
  The body of the \<^verbatim>\<open>for\<close> loop for one section. In the table branch without a table start
  the source calls \<^verbatim>\<open>splitLargeSection\<close> and drops the count it returns.
\<close>

definition sectionStep :: "caseFold \<Rightarrow> nat \<Rightarrow> nat \<Rightarrow> loopState \<Rightarrow> jsstring \<Rightarrow> loopState option" where
  "sectionStep lower maxChunkSize overlap st sec =
     (let trimmedSection = trim sec in
      if trimmedSection = [] \<or> length trimmedSection < 20 then Some st
      else if length trimmedSection \<le> maxChunkSize then
        Some (st\<lparr>chunks := chunks st @
                   [\<lparr>content = trimmedSection,
                     sectionLabel = identifyHealthCheckSection lower trimmedSection,
                     chunkIndex = nextIndex st,
                     startChar = globalCharIndex st,
                     endChar = globalCharIndex st + length trimmedSection\<rparr>],
                 nextIndex := nextIndex st + 1,
                 globalCharIndex := globalCharIndex st + length sec\<rparr>)
      else
        let sectionName = identifyHealthCheckSection lower trimmedSection in
        map_option (\<lambda>st'. st'\<lparr>globalCharIndex := globalCharIndex st' + length sec\<rparr>)
          (if containsTable trimmedSection then
             (case rxExec tableStartPattern trimmedSection of
                Some m \<Rightarrow>
                  if index m \<noteq> 0
                  then Some (tableBranch maxChunkSize trimmedSection sectionName (index m) st)
                  else map_option (\<lambda>(cs, n). st\<lparr>chunks := cs\<rparr>)
                         (splitLargeSection trimmedSection sectionName maxChunkSize overlap
                            (chunks st) (nextIndex st) (globalCharIndex st))
              | None \<Rightarrow>
                  map_option (\<lambda>(cs, n). st\<lparr>chunks := cs\<rparr>)
                    (splitLargeSection trimmedSection sectionName maxChunkSize overlap
                       (chunks st) (nextIndex st) (globalCharIndex st)))
           else
             map_option (\<lambda>(cs, newChunks). st\<lparr>chunks := cs, nextIndex := nextIndex st + newChunks\<rparr>)
               (splitLargeSection trimmedSection sectionName maxChunkSize overlap
                  (chunks st) (nextIndex st) (globalCharIndex st))))"

fun processSections :: "caseFold \<Rightarrow> nat \<Rightarrow> nat \<Rightarrow> loopState \<Rightarrow> jsstring list \<Rightarrow> loopState option" where
  "processSections lower maxChunkSize overlap st [] = Some st"
| "processSections lower maxChunkSize overlap st (sec # secs) =
     (case sectionStep lower maxChunkSize overlap st sec of
        None \<Rightarrow> None
      | Some st' \<Rightarrow> processSections lower maxChunkSize overlap st' secs)"

definition fallbackChunk :: "jsstring \<Rightarrow> nat \<Rightarrow> chunk" where
  "fallbackChunk text maxChunkSize =
     (let content0 = substring (trim text) 0 (maxChunkSize * 2)
      in \<lparr>content = content0, sectionLabel = lit ''General'', chunkIndex = 0, startChar = 0,
          endChar = length content0\<rparr>)"

definition createHealthCheckChunks :: "caseFold \<Rightarrow> jsstring \<Rightarrow> nat \<Rightarrow> nat \<Rightarrow> chunk list option" where
  "createHealthCheckChunks lower text maxChunkSize overlap =
     (if text = [] \<or> length (trim text) = 0 then Some []
      else
        (case processSections lower maxChunkSize overlap
                \<lparr>chunks = [], globalCharIndex = 0, nextIndex = 0\<rparr> (sectionsOf text) of
           None \<Rightarrow> None
         | Some st \<Rightarrow>
             Some (if length (chunks st) = 0 \<and> 0 < length (trim text)
                   then chunks st @ [fallbackChunk text maxChunkSize]
                   else chunks st)))"

section \<open>The metrics extractor\<close>

text \<open>
  A JavaScript number as the extractor produces it: \<^verbatim>\<open>NaN\<close> or a non-negative integer.
  Integers are exact here; the source computes in doubles, which agree with the integers
  below \<open>2^53\<close>.
\<close>

datatype jsnum = NaN | Num nat

text \<open>
  \<^verbatim>\<open>parseInt(s)\<close> on what the source passes to it, a string of decimal digits or the empty
  string: the value of the leading digits, \<^verbatim>\<open>NaN\<close> when there is none.
\<close>

definition digitsValue :: "jsstring \<Rightarrow> nat" where
  "digitsValue s = foldl (\<lambda>n c. 10 * n + nat (c - 48)) 0 s"

definition parseInt :: "jsstring \<Rightarrow> jsnum" where
  "parseInt s = (case takeWhile isDigit s of [] \<Rightarrow> NaN | d # ds \<Rightarrow> Num (digitsValue (d # ds)))"

text \<open>\<^verbatim>\<open>a + b\<close>, \<^verbatim>\<open>a > b\<close> and the truth value of a number.\<close>

fun numPlus :: "jsnum \<Rightarrow> jsnum \<Rightarrow> jsnum" where
  "numPlus (Num a) (Num b) = Num (a + b)"
| "numPlus a b = NaN"

fun numGreater :: "jsnum \<Rightarrow> jsnum \<Rightarrow> bool" where
  "numGreater (Num a) (Num b) = (b < a)"
| "numGreater a b = False"

fun truthy :: "jsnum option \<Rightarrow> bool" where
  "truthy None = False"
| "truthy (Some NaN) = False"
| "truthy (Some (Num n)) = (n \<noteq> 0)"

text \<open>\<^verbatim>\<open>x || 0\<close> as used in the sum of the breakdown.\<close>

fun orZero :: "jsnum option \<Rightarrow> jsnum" where
  "orZero None = Num 0"
| "orZero (Some NaN) = Num 0"
| "orZero (Some (Num n)) = Num n"

text \<open>
  \<^verbatim>\<open>Math.round(p * 0.40)\<close>, \<^verbatim>\<open>Math.round(p * 0.38)\<close> and \<^verbatim>\<open>Math.round(p * 0.22)\<close> for an integer
  \<open>p\<close>: \<^verbatim>\<open>Math.round\<close> rounds halves up, so the result is \<open>\<lfloor>p * pct / 100 + 1/2\<rfloor>\<close>. The doubles
  nearest to 0.40, 0.38 and 0.22 lie above these fractions by less than \<open>10^-16\<close>, and
  \<open>p * pct / 100\<close> is either a half-integer or at least \<open>1/50\<close> away from one, so the double
  product rounds to the same integer for every \<open>p\<close> below \<open>10^13\<close>.
\<close>

definition roundPercent :: "nat \<Rightarrow> nat \<Rightarrow> nat" where
  "roundPercent pct p = (p * pct + 50) div 100"

record HealthCheckMetrics =
  organization :: "jsstring option"
  stack :: "jsstring option"
  runBy :: "jsstring option"
  lastRun :: "jsstring option"
  totalChecks :: "jsnum option"
  performedChecks :: "jsnum option"
  skippedChecks :: "jsnum option"
  actionsRequired :: "jsnum option"
  areasOfOpportunities :: "jsnum option"
  strengths :: "jsnum option"

definition emptyMetrics :: HealthCheckMetrics where
  "emptyMetrics = \<lparr>organization = None, stack = None, runBy = None, lastRun = None,
     totalChecks = None, performedChecks = None, skippedChecks = None,
     actionsRequired = None, areasOfOpportunities = None, strengths = None\<rparr>"

subsection \<open>The first page and the labelled probes\<close>

definition colonOrSpaces :: rx where
  "colonOrSpaces = many1 (Sym (AnyOf [Lit 58, Space]))"

definition restOfLine :: rx where
  "restOfLine = Grp 1 (many1 notNewline)"

definition firstPagePattern :: rx where
  "firstPagePattern =
     seqs [LazyStar anyChar, strI ''Page'', sp0, sym CHR ''1'', sp0, strI ''of'', sp0, digits]"

definition firstPageOf :: "jsstring \<Rightarrow> jsstring" where
  "firstPageOf text =
     (case rxExec firstPagePattern text of Some m \<Rightarrow> matched m | None \<Rightarrow> substring text 0 3000)"

definition organizationPattern :: rx where
  "organizationPattern = seqs [strI ''Organization'', colonOrSpaces, restOfLine]"

definition stackLinePattern :: rx where
  "stackLinePattern = seqs [Bol, strI ''Stack:'', sp0, Grp 1 (many1 nonWs)]"

definition stackAfterNewlinePattern :: rx where
  "stackAfterNewlinePattern = seqs [newline, strI ''Stack:'', sp0, Grp 1 (many1 nonWs)]"

definition runByPattern :: rx where
  "runByPattern = seqs [strI ''Run'', sp0, strI ''By'', colonOrSpaces, restOfLine]"

definition lastRunPattern :: rx where
  "lastRunPattern = seqs [strI ''Last'', sp0, strI ''Run'', colonOrSpaces, restOfLine]"

definition totalChecksPattern :: rx where
  "totalChecksPattern =
     seqs [Grp 1 digits, sp0, newline, sp0, strI ''Total'', sp0, strI ''Checks'']"

definition checksPattern :: rx where
  "checksPattern =
     seqs [Grp 1 digits, sp0, maybe newline, sp0, strI ''Performed'', sp0, strI ''Checks'', sp0,
           strI ''Skipped'', sp0, strI ''Checks'']"

definition performedPattern :: rx where
  "performedPattern =
     seqs [Grp 1 digits, sp0, maybe newline, sp0, strI ''Performed'', sp0, strI ''Checks'']"

definition skippedPattern :: rx where
  "skippedPattern =
     seqs [Grp 1 digits, sp0, maybe newline, sp0, strI ''Skipped'', sp0, strI ''Checks'']"

text \<open>
  \<open>probe e s\<close> is \<^verbatim>\<open>s.match(e)\<close> followed by reading \<^verbatim>\<open>match[1]\<close>; each of the patterns above
  has group 1 in every match.
\<close>

definition probe :: "rx \<Rightarrow> jsstring \<Rightarrow> jsstring option" where
  "probe e s = (case rxExec e s of None \<Rightarrow> None | Some m \<Rightarrow> capturedGroup 1 m)"

definition stackProbe :: "jsstring \<Rightarrow> jsstring option" where
  "stackProbe firstPage =
     (case rxExec stackLinePattern firstPage of
        Some m \<Rightarrow> capturedGroup 1 m
      | None \<Rightarrow> probe stackAfterNewlinePattern firstPage)"

definition extractInfo :: "jsstring \<Rightarrow> HealthCheckMetrics" where
  "extractInfo firstPage =
     emptyMetrics\<lparr>
       organization := map_option trim (probe organizationPattern firstPage),
       stack := map_option trim (stackProbe firstPage),
       runBy := map_option trim (probe runByPattern firstPage),
       lastRun := map_option trim (probe lastRunPattern firstPage),
       totalChecks := map_option parseInt (probe totalChecksPattern firstPage)\<rparr>"

subsection \<open>Performed and skipped checks\<close>

text \<open>
  The \<^verbatim>\<open>for\<close> loop over the split positions \<open>i = 1, ..., length - 1\<close>, which stops at the
  first split whose parts add up to \<^verbatim>\<open>totalChecks\<close>.
\<close>

fun firstExactSplit :: "jsstring \<Rightarrow> nat \<Rightarrow> nat list \<Rightarrow> (jsnum \<times> jsnum) option" where
  "firstExactSplit combinedNum t [] = None"
| "firstExactSplit combinedNum t (i # rest) =
     (let performed = parseInt (substring combinedNum 0 i);
          skipped = parseInt (drop i combinedNum)
      in if numPlus performed skipped = Num t then Some (performed, skipped)
         else firstExactSplit combinedNum t rest)"

text \<open>
  \<^verbatim>\<open>s.slice(0, -k)\<close> and \<^verbatim>\<open>s.slice(-k)\<close> for \<open>k = 1, 2\<close>: all but the last \<open>k\<close> code units, and
  the last \<open>k\<close> (the whole string when it is shorter).
\<close>

definition sliceFront :: "jsstring \<Rightarrow> nat \<Rightarrow> jsstring" where
  "sliceFront s k = take (length s - k) s"

definition sliceBack :: "jsstring \<Rightarrow> nat \<Rightarrow> jsstring" where
  "sliceBack s k = drop (length s - k) s"

text \<open>
  The block run when the combined pattern matched, in its two branches: \<open>splitKnown\<close> when
  \<^verbatim>\<open>metrics.totalChecks\<close> is truthy (a number \<open>t\<close> other than zero) and \<open>splitUnknown\<close> otherwise.
  The result is the pair of \<^verbatim>\<open>performedChecks\<close> and \<^verbatim>\<open>skippedChecks\<close> left in \<^verbatim>\<open>metrics\<close>;
  \<open>None\<close> is a field left unset.
\<close>

definition splitKnown :: "jsstring \<Rightarrow> nat \<Rightarrow> jsnum option \<times> jsnum option" where
  "splitKnown combinedNum t =
     (case firstExactSplit combinedNum t [1..<length combinedNum] of
        Some (performed, skipped) \<Rightarrow> (Some performed, Some skipped)
      | None \<Rightarrow>
          if 2 \<le> length combinedNum then
            let performed = parseInt (sliceFront combinedNum 1);
                skipped = parseInt (sliceBack combinedNum 1)
            in if numGreater performed (Num t)
               then (Some (parseInt (sliceFront combinedNum 2)),
                     Some (parseInt (sliceBack combinedNum 2)))
               else (Some performed, Some skipped)
          else (None, None))"

definition splitUnknown :: "jsstring \<Rightarrow> jsnum option \<times> jsnum option" where
  "splitUnknown combinedNum =
     (Some (parseInt (sliceFront combinedNum 1)), Some (parseInt (sliceBack combinedNum 1)))"

definition splitCombined :: "jsstring \<Rightarrow> jsnum option \<Rightarrow> jsnum option \<times> jsnum option" where
  "splitCombined combinedNum known =
     (case known of
        Some (Num t) \<Rightarrow> if t \<noteq> 0 then splitKnown combinedNum t else splitUnknown combinedNum
      | _ \<Rightarrow> splitUnknown combinedNum)"

definition extractChecks :: "jsstring \<Rightarrow> HealthCheckMetrics \<Rightarrow> HealthCheckMetrics" where
  "extractChecks firstPage metrics =
     (case probe checksPattern firstPage of
        Some combinedNum \<Rightarrow>
          (let (performed, skipped) = splitCombined combinedNum (totalChecks metrics)
           in metrics\<lparr>performedChecks := performed, skippedChecks := skipped\<rparr>)
      | None \<Rightarrow>
          metrics\<lparr>performedChecks := map_option parseInt (probe performedPattern firstPage),
                  skippedChecks := map_option parseInt (probe skippedPattern firstPage)\<rparr>)"

subsection \<open>The breakdown\<close>

definition actionsHeaderLine :: rx where
  "actionsHeaderLine = seqs [newline, sp0, strI ''Actions Required'', sp0, newline]"

definition opportunitiesHeaderLine :: rx where
  "opportunitiesHeaderLine = seqs [newline, sp0, strI ''Areas of Opportunities'', sp0, newline]"

definition strengthsHeaderLine :: rx where
  "strengthsHeaderLine = seqs [newline, sp0, strI ''Strengths'', sp0, newline]"

definition headerAhead :: rx where
  "headerAhead =
     Look (alts [strI ''Actions Required'', strI ''Areas of Opportunities'', strI ''Strengths''])"

definition itemPattern :: rx where
  "itemPattern =
     seqs [Bol, upperAZ, many1 lowerAZ, Star (seqs [sp1, upperAZ, many1 lowerAZ]), sym CHR '':'']"

text \<open>\<^verbatim>\<open>text.split(header).length - 1\<close>.\<close>

definition headerCount :: "rx \<Rightarrow> jsstring \<Rightarrow> nat" where
  "headerCount e text = length (rxSplit e text) - 1"

text \<open>
  The loop over the pieces cut before every header: the three item counters, updated by one
  piece. A piece cut off by \<^verbatim>\<open>split\<close> is never \<^verbatim>\<open>undefined\<close> here, the pattern has no
  capture.
\<close>

record itemCounts =
  actionsCount :: nat
  oppsCount :: nat
  strengthsCount :: nat

definition countItems :: "caseFold \<Rightarrow> itemCounts \<Rightarrow> jsstring option \<Rightarrow> itemCounts" where
  "countItems lower counts piece =
     (case piece of
        None \<Rightarrow> counts
      | Some sec \<Rightarrow>
          let sectionStart = lower (substring sec 0 50);
              itemCount = length (matchAll itemPattern sec)
          in if stringIncludes sectionStart (lit ''actions required'')
             then counts\<lparr>actionsCount := actionsCount counts + max 1 itemCount\<rparr>
             else if stringIncludes sectionStart (lit ''areas of opportunities'')
             then counts\<lparr>oppsCount := oppsCount counts + max 1 itemCount\<rparr>
             else if stringIncludes sectionStart (lit ''strengths'')
             then counts\<lparr>strengthsCount := strengthsCount counts + max 1 itemCount\<rparr>
             else counts)"

definition counted :: "nat \<Rightarrow> nat \<Rightarrow> jsnum option" where
  "counted sections items = (if 0 < sections \<or> 0 < items then Some (Num (max sections items)) else None)"

definition countBreakdown :: "caseFold \<Rightarrow> jsstring \<Rightarrow> HealthCheckMetrics \<Rightarrow> HealthCheckMetrics" where
  "countBreakdown lower text metrics =
     (let actionsRequiredSections = headerCount actionsHeaderLine text;
          opportunitiesSections = headerCount opportunitiesHeaderLine text;
          strengthsSections = headerCount strengthsHeaderLine text;
          counts = foldl (countItems lower)
                     \<lparr>actionsCount = 0, oppsCount = 0, strengthsCount = 0\<rparr>
                     (rxSplit headerAhead text)
      in metrics\<lparr>
           actionsRequired := counted actionsRequiredSections (actionsCount counts),
           areasOfOpportunities := counted opportunitiesSections (oppsCount counts),
           strengths := counted strengthsSections (strengthsCount counts)\<rparr>)"

text \<open>
  The estimate: entered when \<^verbatim>\<open>performedChecks\<close> is truthy and the counted sum is zero or
  above twice \<^verbatim>\<open>performedChecks\<close>; it fills the categories that are not truthy.
\<close>

definition estimateBreakdown :: "HealthCheckMetrics \<Rightarrow> HealthCheckMetrics" where
  "estimateBreakdown metrics =
     (case performedChecks metrics of
        Some (Num p) \<Rightarrow>
          if p \<noteq> 0 then
            let breakdownSum = numPlus (numPlus (orZero (actionsRequired metrics))
                                          (orZero (areasOfOpportunities metrics)))
                                 (orZero (strengths metrics))
            in if breakdownSum = Num 0 \<or> numGreater breakdownSum (Num (p * 2)) then
                 metrics\<lparr>
                   strengths := (if truthy (strengths metrics) then strengths metrics
                                 else Some (Num (roundPercent 40 p))),
                   areasOfOpportunities := (if truthy (areasOfOpportunities metrics)
                                            then areasOfOpportunities metrics
                                            else Some (Num (roundPercent 38 p))),
                   actionsRequired := (if truthy (actionsRequired metrics) then actionsRequired metrics
                                       else Some (Num (roundPercent 22 p)))\<rparr>
               else metrics
          else metrics
      | _ \<Rightarrow> metrics)"

definition countedMetrics :: "caseFold \<Rightarrow> jsstring \<Rightarrow> HealthCheckMetrics" where
  "countedMetrics lower text =
     (let firstPage = firstPageOf text
      in countBreakdown lower text (extractChecks firstPage (extractInfo firstPage)))"

definition extractHealthCheckMetrics :: "caseFold \<Rightarrow> jsstring \<Rightarrow> HealthCheckMetrics" where
  "extractHealthCheckMetrics lower text = estimateBreakdown (countedMetrics lower text)"

section \<open>Vocabulary of the properties\<close>

subsection \<open>Chunks\<close>

definition hasTableSuffix :: "jsstring \<Rightarrow> bool" where
  "hasTableSuffix l =
     (length tableSuffix \<le> length l \<and> drop (length l - length tableSuffix) l = tableSuffix)"

definition labelAndLength :: "chunk \<Rightarrow> jsstring \<times> nat" where
  "labelAndLength c = (sectionLabel c, length (content c))"

text \<open>
  For a section of the input: the index at which \<^verbatim>\<open>Displaying <digits>\<close> is found in the
  trimmed section (0 when it is not found), whether the section goes through the table
  branch of the main loop, and the two texts that branch cuts the section into.
\<close>

definition tableStartOf :: "jsstring \<Rightarrow> nat" where
  "tableStartOf sec =
     (case rxExec tableStartPattern (trim sec) of Some m \<Rightarrow> index m | None \<Rightarrow> 0)"

definition takesTableBranch :: "nat \<Rightarrow> jsstring \<Rightarrow> bool" where
  "takesTableBranch maxChunkSize sec =
     (20 \<le> length (trim sec) \<and> maxChunkSize < length (trim sec) \<and> containsTable (trim sec)
      \<and> tableStartOf sec \<noteq> 0)"

definition beforeTableOf :: "jsstring \<Rightarrow> jsstring" where
  "beforeTableOf sec = trim (substring (trim sec) 0 (tableStartOf sec))"

definition tableBodyOf :: "jsstring \<Rightarrow> jsstring" where
  "tableBodyOf sec = trim (drop (tableStartOf sec) (trim sec))"

text \<open>What the main loop may emit for one section.\<close>

definition emittedFor :: "nat \<Rightarrow> jsstring \<Rightarrow> chunk \<Rightarrow> bool" where
  "emittedFor maxChunkSize sec c =
     ((20 \<le> length (content c) \<and> length (content c) \<le> maxChunkSize)
      \<or> (takesTableBranch maxChunkSize sec \<and>
           ((content c = beforeTableOf sec \<and> 50 < length (content c))
            \<or> (hasTableSuffix (sectionLabel c)
                \<and> (length (content c) \<le> 2 * maxChunkSize
                    \<or> 2 * maxChunkSize < length (tableBodyOf sec))))))"

subsection \<open>The classifier\<close>

text \<open>
  The window the classifier inspects, the patterns declared for a label, and the
  classification as the specification words it: the label of the first entry of the table,
  in declaration order, one of whose patterns matches the window, and \<^verbatim>\<open>General\<close> when there
  is none.
\<close>

definition inspectedWindow :: "caseFold \<Rightarrow> jsstring \<Rightarrow> jsstring" where
  "inspectedWindow lower text = take 300 (lower text)"

definition patternsOf :: "jsstring \<Rightarrow> rx list" where
  "patternsOf label = (case map_of sectionPatterns label of None \<Rightarrow> [] | Some ps \<Rightarrow> ps)"

definition matchesSection :: "jsstring \<Rightarrow> jsstring \<Rightarrow> bool" where
  "matchesSection label window = list_ex (\<lambda>p. rxTest p window) (patternsOf label)"

definition matchesAnySection :: "jsstring \<Rightarrow> bool" where
  "matchesAnySection window =
     list_ex (\<lambda>entry. list_ex (\<lambda>p. rxTest p window) (snd entry)) sectionPatterns"

definition firstMatchingLabel :: "(jsstring \<times> rx list) list \<Rightarrow> jsstring \<Rightarrow> jsstring" where
  "firstMatchingLabel table window =
     (case find (\<lambda>entry. list_ex (\<lambda>p. rxTest p window) (snd entry)) table of
        None \<Rightarrow> lit ''General''
      | Some entry \<Rightarrow> fst entry)"

subsection \<open>The metrics\<close>




section \<open>Example inputs\<close>

text \<open>The end-to-end scenario of the specification.\<close>

definition scenarioText :: jsstring where
  "scenarioText = lit ''Stack Overview\<newline>Stack: acme\<newline>Page 1 of 5\<newline>\<newline>Actions Required\<newline>Fix A: description text that is long enough.\<newline>\<newline>Strengths\<newline>Good config: description text that is long enough.''"

definition scenarioOverview :: jsstring where
  "scenarioOverview = lit ''Stack Overview\<newline>Stack: acme\<newline>Page 1 of 5''"

definition scenarioActions :: jsstring where
  "scenarioActions = lit ''Actions Required\<newline>Fix A: description text that is long enough.\<newline>\<newline>Strengths\<newline>Good config: description text that is long enough.''"

text \<open>
  A normalized text of two paragraphs: \<^verbatim>\<open>created on\<close> followed by 1490 letters \<^verbatim>\<open>a\<close> (1501
  characters, a table header without a \<^verbatim>\<open>Displaying\<close> caption), and 25 letters \<^verbatim>\<open>b\<close>.
\<close>

definition captionlessTableText :: jsstring where
  "captionlessTableText =
     lit ''created on '' @ replicate 1490 97 @ lit ''\<newline>\<newline>'' @ replicate 25 98"

text \<open>A normalized text of 72 paragraphs of 19 letters \<^verbatim>\<open>a\<close> each, 1510 characters.\<close>

definition shortParagraphsText :: jsstring where
  "shortParagraphsText =
     concat (replicate 71 (replicate 19 97 @ lit ''\<newline>\<newline>'')) @ replicate 19 97"

text \<open>
  A normalized text of one line: \<^verbatim>\<open>created on\<close>, 1490 letters \<^verbatim>\<open>a\<close> and the caption
  \<^verbatim>\<open>Displaying 5\<close> at index 1502.
\<close>

definition tableTailText :: jsstring where
  "tableTailText = lit ''created on '' @ replicate 1490 97 @ lit '' Displaying 5''"

definition blankLinesText :: jsstring where
  "blankLinesText = lit ''a\<newline> \<newline> \<newline>b''"

definition webhooksText :: jsstring where
  "webhooksText = lit ''Webhooks: two endpoints are failing''"

definition workflowsText :: jsstring where
  "workflowsText = lit ''Workflows: the review stage is never used''"

definition modellingText :: jsstring where
  "modellingText = lit ''Content model with 40 entries''"

definition plainText :: jsstring where
  "plainText = lit ''nothing to see here''"





section \<open>Evaluation\<close>

text \<open>
  Code equations by pattern matching for \<open>take\<close> and \<open>drop\<close>, and the unfolding equation of the
  splitting loop, for the evaluation of the model on concrete texts.
\<close>

lemma take_patterns [code]:
  "take 0 xs = []"
  "take (Suc n) [] = []"
  "take (Suc n) (x # xs) = x # take n xs"
  by simp_all

lemma drop_patterns [code]:
  "drop 0 xs = xs"
  "drop (Suc n) [] = []"
  "drop (Suc n) (x # xs) = drop n xs"
  by simp_all

declare splitLoop.simps [code]

section \<open>Lemmas about the string operations\<close>

lemma length_trim_le: "length (trim s) \<le> length s"
  unfolding trim_def
  by (metis length_dropWhile_le length_rev order_trans)

lemma trim_Nil: "trim [] = []"
  by (simp add: trim_def)

lemma length_substring_le: "length (substring s a b) \<le> max a b - min a b"
  by (simp add: substring_def)

lemma substring_from_0: "substring s 0 n = take n s"
  by (simp add: substring_def)

lemma lit_nonempty: "lit (c # cs) \<noteq> []"
  by (simp add: lit_def)

lemma lastIndexFrom_range:
  "pat \<noteq> [] \<Longrightarrow> lastIndexFrom pat i best s = best
     \<or> (i \<le> lastIndexFrom pat i best s \<and> lastIndexFrom pat i best s < i + int (length s))"
  "pat \<noteq> [] \<Longrightarrow> lastIndexStep t pat i best s = best \<or> lastIndexStep t pat i best s = i
     \<or> (i < lastIndexStep t pat i best s \<and> lastIndexStep t pat i best s < i + 1 + int (length s))"
   apply (induction pat i best s and t pat i best s rule: lastIndexFrom_lastIndexStep.induct)
     apply auto
  done

lemma lastIndexOf_less: "pat \<noteq> [] \<Longrightarrow> lastIndexOf s pat < int (length s)"
  using lastIndexFrom_range(1)[of pat 0 "-1" s] unfolding lastIndexOf_def by auto

lemma maxOf_mem: "maxOf bs = Some m \<Longrightarrow> m \<in> set bs"
  by (induction bs arbitrary: m) (auto split: option.splits simp: max_def)

section \<open>Lemmas about the chunk splitter\<close>

subsection \<open>The generic split of an oversized section\<close>

text \<open>
  The window \<open>[start, end)\<close> of one iteration is never longer than \<open>maxSize\<close>, and it is not
  empty when \<open>maxSize\<close> is positive.
\<close>

lemma windowEnd_bounds:
  assumes "start0 < length text"
  shows "windowEnd text maxSize start0 \<le> start0 + maxSize"
    and "start0 \<le> windowEnd text maxSize start0"
    and "0 < maxSize \<Longrightarrow> start0 < windowEnd text maxSize start0"
proof -
  define end0 where "end0 = min (start0 + maxSize) (length text)"
  define searchArea where "searchArea = substring text start0 end0"
  define breakPoints where "breakPoints =
    [lastIndexOf searchArea (lit ''\<newline>\<newline>''), lastIndexOf searchArea (lit ''. ''),
     lastIndexOf searchArea (lit ''\<newline>''), lastIndexOf searchArea (lit '', '')]"
  define bestBreak where "bestBreak = maxOf (filter (\<lambda>b. int maxSize < 3 * b) breakPoints)"
  have e0: "start0 \<le> end0" "end0 \<le> start0 + maxSize" "0 < maxSize \<Longrightarrow> start0 < end0"
    using assms by (auto simp: end0_def)
  have len: "length searchArea \<le> maxSize"
    using length_substring_le[of "text" start0 end0] e0 by (simp add: searchArea_def)
  have lt: "lastIndexOf searchArea (lit (c # cs)) < int maxSize" for c cs
    using lastIndexOf_less[OF lit_nonempty, of searchArea c cs] len by linarith
  have "\<forall>b \<in> set breakPoints. b < int maxSize"
    unfolding breakPoints_def using lt by simp
  then have bp: "b < int maxSize" if "bestBreak = Some b" for b
    using maxOf_mem[OF that[unfolded bestBreak_def]] by auto
  have we: "windowEnd text maxSize start0 =
     (if end0 < length text then
        (case bestBreak of
              None \<Rightarrow> end0
            | Some b \<Rightarrow> if 0 < b then nat (int start0 + b + 1) else end0)
      else end0)"
    unfolding windowEnd_def Let_def end0_def searchArea_def bestBreak_def breakPoints_def by simp
  show "windowEnd text maxSize start0 \<le> start0 + maxSize"
  proof (cases bestBreak)
    case None
    then show ?thesis unfolding we using e0 by simp
  next
    case (Some b)
    from bp[OF Some] have "nat (int start0 + b + 1) \<le> start0 + maxSize" by linarith
    then show ?thesis unfolding we using e0 Some by simp
  qed
  show "start0 \<le> windowEnd text maxSize start0"
    unfolding we using e0 by (cases bestBreak) auto
  show "start0 < windowEnd text maxSize start0" if "0 < maxSize"
    unfolding we using e0 that by (cases bestBreak) auto
qed

lemma splitStep_chunks:
  assumes "start st < length text"
  shows "\<exists>new. chunksOut (splitStep text sectionName maxSize overlap sci g st) = chunksOut st @ new
           \<and> (\<forall>c \<in> set new. 20 < length (content c) \<and> length (content c) \<le> maxSize)"
proof -
  have "length (trim (substring text (start st) (windowEnd text maxSize (start st)))) \<le> maxSize"
    using windowEnd_bounds(1,2)[OF assms, of maxSize]
      length_substring_le[of "text" "start st" "windowEnd text maxSize (start st)"]
      length_trim_le[of "substring text (start st) (windowEnd text maxSize (start st))"]
    by (auto simp: max_def min_def split: if_splits)
  then show ?thesis
    by (auto simp: splitStep_def Let_def)
qed

lemma splitStep_progress:
  assumes "start st < length text" "0 < maxSize"
  shows "start st < start (splitStep text sectionName maxSize overlap sci g st)"
  using windowEnd_bounds(3)[OF assms]
  by (auto simp: splitStep_def Let_def)

text \<open>Whatever the loop returns, it has only appended chunks within the size limits.\<close>

lemma splitLoop_chunks:
  assumes "splitLoop body sectionName maxSize overlap sci g st = Some st'"
  shows "\<exists>new. chunksOut st' = chunksOut st @ new
           \<and> (\<forall>c \<in> set new. 20 < length (content c) \<and> length (content c) \<le> maxSize)"
  using assms
proof (induction rule: splitLoop.raw_induct[rotated 1, consumes 1])
  case (1 f t n m ov i g s r)
  show ?case
  proof (cases "start s < length t")
    case True
    with 1(2) have r: "f t n m ov i g (splitStep t n m ov i g s) = Some r"
      by simp
    from 1(1)[OF r] splitStep_chunks[OF True, of n m ov i g]
    show ?thesis by (metis Un_iff append.assoc set_append)
  next
    case False
    with 1(2) show ?thesis by auto
  qed
qed

text \<open>With a positive \<open>maxSize\<close> the window start grows in every iteration: the loop returns.\<close>

lemma splitLoop_terminates:
  assumes "0 < maxSize"
  shows "\<exists>st'. splitLoop body sectionName maxSize overlap sci g st = Some st'"
proof (induction "length body - start st" arbitrary: st rule: less_induct)
  case less
  show ?case
  proof (cases "start st < length body")
    case True
    have "length body - start (splitStep body sectionName maxSize overlap sci g st)
            < length body - start st"
      using splitStep_progress[OF True assms, of sectionName overlap sci g] True by auto
    from less[OF this] show ?thesis
      by (subst splitLoop.simps) (simp add: True)
  next
    case False
    then show ?thesis by (subst splitLoop.simps) simp
  qed
qed

lemma splitLargeSection_chunks:
  assumes "splitLargeSection body sectionName maxSize overlap cs0 sci g = Some (cs, n)"
  shows "\<exists>new. cs = cs0 @ new
           \<and> (\<forall>c \<in> set new. 20 < length (content c) \<and> length (content c) \<le> maxSize)"
proof -
  from assms obtain st' where
    "splitLoop body sectionName maxSize overlap sci g
       \<lparr>chunksOut = cs0, chunksCreated = 0, start = 0\<rparr> = Some st'"
    and "cs = chunksOut st'"
    by (auto simp: splitLargeSection_def)
  with splitLoop_chunks[OF this(1)] show ?thesis by auto
qed

lemma splitLargeSection_terminates:
  assumes "0 < maxSize"
  shows "\<exists>r. splitLargeSection body sectionName maxSize overlap cs0 sci g = Some r"
  using splitLoop_terminates[OF assms, of body sectionName overlap sci g
      "\<lparr>chunksOut = cs0, chunksCreated = 0, start = 0\<rparr>"]
  by (auto simp: splitLargeSection_def)

subsection \<open>The table branch\<close>

lemma hasTableSuffix_append: "hasTableSuffix (name @ tableSuffix)"
  by (simp add: hasTableSuffix_def)

lemma tableLine_labels:
  assumes "\<forall>c \<in> set (tableChunks st). sectionLabel c = sectionName @ tableSuffix"
  shows "\<forall>c \<in> set (tableChunks (tableLine maxSize sectionName header st line)).
           sectionLabel c = sectionName @ tableSuffix"
  using assms by (auto simp: tableLine_def Let_def)

lemma foldl_tableLine_labels:
  assumes "\<forall>c \<in> set (tableChunks st). sectionLabel c = sectionName @ tableSuffix"
  shows "\<forall>c \<in> set (tableChunks (foldl (tableLine maxSize sectionName header) st lines)).
           sectionLabel c = sectionName @ tableSuffix"
  using assms
proof (induction lines arbitrary: st)
  case Nil
  then show ?case by simp
next
  case (Cons l ls)
  from Cons.IH[OF tableLine_labels[OF Cons.prems]] show ?case by simp
qed

lemma splitTableContent_labels:
  "\<forall>c \<in> set (splitTableContent tableContent maxSize sectionName startIndex startChar0).
     sectionLabel c = sectionName @ tableSuffix"
proof -
  have "\<forall>c \<in> set (tableChunks (foldl (tableLine maxSize sectionName header)
          \<lparr>tableChunks = [], currentChunk = [], tableIndex = startIndex,
           currentStartChar = startChar0\<rparr> lines)).
        sectionLabel c = sectionName @ tableSuffix" for header lines
    by (rule foldl_tableLine_labels) simp
  then show ?thesis
    by (auto simp: splitTableContent_def Let_def)
qed

lemma tableStart_found:
  assumes "tableStartOf sec \<noteq> 0"
  shows "\<exists>m. rxExec tableStartPattern (trim sec) = Some m \<and> index m = tableStartOf sec"
proof (cases "rxExec tableStartPattern (trim sec)")
  case None
  then have "tableStartOf sec = 0" unfolding tableStartOf_def by (simp only: option.case)
  with assms show ?thesis by simp
next
  case (Some m)
  then have "tableStartOf sec = index m" unfolding tableStartOf_def by (simp only: option.case)
  with Some show ?thesis by simp
qed

lemma tableBranch_chunks:
  assumes i: "i = tableStartOf sec" and t: "takesTableBranch maxChunkSize sec"
  shows "\<exists>new. chunks (tableBranch maxChunkSize (trim sec) sectionName i st) = chunks st @ new
           \<and> (\<forall>c \<in> set new. emittedFor maxChunkSize sec c)"
proof -
  have lab: "\<forall>c \<in> set (splitTableContent tc maxChunkSize sectionName a b).
      hasTableSuffix (sectionLabel c)" for tc a b
    using splitTableContent_labels[of tc maxChunkSize sectionName a b] hasTableSuffix_append
    by auto
  show ?thesis
    unfolding tableBranch_def Let_def i
    using t lab
    by (auto simp: emittedFor_def beforeTableOf_def tableBodyOf_def hasTableSuffix_append)
qed

subsection \<open>The main loop\<close>

lemma sectionStep_chunks:
  assumes "sectionStep lower maxChunkSize overlap st sec = Some st'"
  shows "\<exists>new. chunks st' = chunks st @ new \<and> (\<forall>c \<in> set new. emittedFor maxChunkSize sec c)"
proof -
  let ?t = "trim sec"
  consider (skip) "?t = [] \<or> length ?t < 20"
    | (small) "\<not> (?t = [] \<or> length ?t < 20)" "length ?t \<le> maxChunkSize"
    | (table) "\<not> (?t = [] \<or> length ?t < 20)" "\<not> length ?t \<le> maxChunkSize"
        "takesTableBranch maxChunkSize sec"
    | (split) "\<not> (?t = [] \<or> length ?t < 20)" "\<not> length ?t \<le> maxChunkSize"
        "\<not> takesTableBranch maxChunkSize sec"
    by blast
  then show ?thesis
  proof cases
    case skip
    with assms show ?thesis by (auto simp: sectionStep_def Let_def)
  next
    case small
    with assms show ?thesis by (auto simp: sectionStep_def Let_def emittedFor_def)
  next
    case table
    from table(3) have ct: "containsTable ?t" and nz: "tableStartOf sec \<noteq> 0"
      by (simp_all add: takesTableBranch_def)
    from tableStart_found[OF nz] nz obtain m where
      m: "rxExec tableStartPattern ?t = Some m" "index m \<noteq> 0" "index m = tableStartOf sec"
      by auto
    from assms table(1,2) m ct
    have "st' = (tableBranch maxChunkSize ?t (identifyHealthCheckSection lower ?t) (index m) st)
            \<lparr>globalCharIndex := globalCharIndex (tableBranch maxChunkSize ?t
                (identifyHealthCheckSection lower ?t) (index m) st) + length sec\<rparr>"
      by (auto simp: sectionStep_def Let_def)
    with tableBranch_chunks[OF m(3) table(3), of "identifyHealthCheckSection lower ?t" st]
    show ?thesis by auto
  next
    case split
    from assms split obtain cs n where
      sl: "splitLargeSection ?t (identifyHealthCheckSection lower ?t) maxChunkSize overlap
             (chunks st) (nextIndex st) (globalCharIndex st) = Some (cs, n)"
      and st': "chunks st' = cs"
      by (auto simp: sectionStep_def Let_def takesTableBranch_def tableStartOf_def
          split: option.splits if_splits)
    from splitLargeSection_chunks[OF sl] st' show ?thesis
      by (auto simp: emittedFor_def) (metis less_imp_le_nat)+
  qed
qed

lemma sectionStep_terminates:
  assumes "0 < maxChunkSize"
  shows "\<exists>st'. sectionStep lower maxChunkSize overlap st sec = Some st'"
  using splitLargeSection_terminates[OF assms, of "trim sec"
      "identifyHealthCheckSection lower (trim sec)" overlap "chunks st" "nextIndex st"
      "globalCharIndex st"]
  by (auto simp: sectionStep_def Let_def split: option.splits)

lemma processSections_terminates:
  assumes "0 < maxChunkSize"
  shows "\<exists>st'. processSections lower maxChunkSize overlap st secs = Some st'"
proof (induction secs arbitrary: st)
  case Nil
  then show ?case by simp
next
  case (Cons sec secs)
  from sectionStep_terminates[OF assms, of lower overlap st sec] obtain st1 where
    "sectionStep lower maxChunkSize overlap st sec = Some st1" by blast
  with Cons.IH[of st1] show ?case by simp
qed

lemma processSections_chunks:
  assumes "processSections lower maxChunkSize overlap st secs = Some st'"
  shows "\<exists>new. chunks st' = chunks st @ new
           \<and> (\<forall>c \<in> set new. \<exists>sec \<in> set secs. emittedFor maxChunkSize sec c)"
  using assms
proof (induction secs arbitrary: st)
  case Nil
  then show ?case by simp
next
  case (Cons sec secs)
  from Cons.prems obtain st1 where
    s1: "sectionStep lower maxChunkSize overlap st sec = Some st1"
    and r: "processSections lower maxChunkSize overlap st1 secs = Some st'"
    by (auto split: option.splits)
  from sectionStep_chunks[OF s1] obtain n1 where
    n1: "chunks st1 = chunks st @ n1" "\<forall>c \<in> set n1. emittedFor maxChunkSize sec c" by blast
  from Cons.IH[OF r] obtain n2 where
    n2: "chunks st' = chunks st1 @ n2"
      "\<forall>c \<in> set n2. \<exists>s \<in> set secs. emittedFor maxChunkSize s c" by blast
  have "chunks st' = chunks st @ (n1 @ n2)" using n1 n2 by simp
  moreover have "\<forall>c \<in> set (n1 @ n2). \<exists>s \<in> set (sec # secs). emittedFor maxChunkSize s c"
    using n1 n2 by auto
  ultimately show ?case by blast
qed

text \<open>The shape of a result of \<^verbatim>\<open>createHealthCheckChunks\<close>.\<close>

lemma create_cases:
  assumes "createHealthCheckChunks lower text maxChunkSize overlap = Some cs"
  shows "(trim text = [] \<and> cs = [])
       \<or> (trim text \<noteq> [] \<and> (\<exists>st. processSections lower maxChunkSize overlap
              \<lparr>chunks = [], globalCharIndex = 0, nextIndex = 0\<rparr> (sectionsOf text) = Some st
              \<and> cs = (if chunks st = [] then [fallbackChunk text maxChunkSize] else chunks st)))"
proof (cases "text = [] \<or> length (trim text) = 0")
  case True
  then have "trim text = []" by (auto simp: trim_def)
  with assms True show ?thesis by (simp add: createHealthCheckChunks_def)
next
  case False
  then have nz: "trim text \<noteq> []" by auto
  from assms False obtain st where
    "processSections lower maxChunkSize overlap
       \<lparr>chunks = [], globalCharIndex = 0, nextIndex = 0\<rparr> (sectionsOf text) = Some st"
    "cs = (if length (chunks st) = 0 \<and> 0 < length (trim text)
           then chunks st @ [fallbackChunk text maxChunkSize] else chunks st)"
    by (auto simp: createHealthCheckChunks_def split: option.splits)
  with nz show ?thesis by auto
qed

lemma fallback_length: "length (content (fallbackChunk text maxChunkSize)) \<le> 2 * maxChunkSize"
  using length_substring_le[of "trim text" 0 "maxChunkSize * 2"]
  by (simp add: fallbackChunk_def Let_def)

lemma fallback_fields:
  "fallbackChunk text maxChunkSize =
     \<lparr>content = take (2 * maxChunkSize) (trim text), sectionLabel = lit ''General'',
      chunkIndex = 0, startChar = 0, endChar = length (take (2 * maxChunkSize) (trim text))\<rparr>"
  by (simp add: fallbackChunk_def Let_def substring_def mult.commute)

section \<open>Lemmas about the classifier\<close>

lemma anyPatternMatches_ex: "anyPatternMatches ps w = list_ex (\<lambda>p. rxTest p w) ps"
  by (induction ps) auto

lemma firstSection_find: "firstSection table w = firstMatchingLabel table w"
  by (induction table) (auto simp: firstMatchingLabel_def anyPatternMatches_ex)

lemma identify_window:
  "identifyHealthCheckSection lower text
     = firstMatchingLabel sectionPatterns (inspectedWindow lower text)"
  by (simp add: identifyHealthCheckSection_def firstSection_find substring_from_0
      inspectedWindow_def)

lemma patternsOf_first:
  assumes eq: "sectionPatterns = (l, ps) # rest"
  shows "patternsOf l = ps"
  unfolding patternsOf_def eq by simp

lemma firstMatching_first:
  assumes "sectionPatterns = (l, ps) # rest" and "matchesSection l w"
  shows "firstMatchingLabel sectionPatterns w = l"
proof -
  from assms(2) patternsOf_first[OF assms(1)] have "list_ex (\<lambda>p. rxTest p w) ps"
    by (simp add: matchesSection_def)
  then show ?thesis unfolding firstMatchingLabel_def assms(1) by simp
qed

lemma sectionPatterns_head:
  "\<exists>ps rest. sectionPatterns = (lit ''Content Modelling'', ps) # rest"
  unfolding sectionPatterns_def by blast

section \<open>Lemmas about the metrics extractor\<close>










section \<open>The properties\<close>

subsection \<open>C1: a text that is not blank gives at least one chunk\<close>

text \<open>
  C1. For every input whose trimmed text is not empty, and a positive \<^verbatim>\<open>maxChunkSize\<close>,
  \<^verbatim>\<open>createHealthCheckChunks\<close> returns, and returns at least one chunk; when the loop over the
  sections leaves no chunk, the result is exactly one chunk labelled \<^verbatim>\<open>General\<close> with
  \<^verbatim>\<open>chunkIndex\<close> 0 and \<^verbatim>\<open>startChar\<close> 0 whose content is the first \<open>2 * maxChunkSize\<close> characters
  of the trimmed text. "Not empty" is not enough: a string of white space is not empty and
  gives no chunk.
\<close>

theorem chunking_returns_a_chunk:
  assumes "trim text \<noteq> []" and "0 < maxChunkSize"
  shows "\<exists>cs. createHealthCheckChunks lower text maxChunkSize overlap = Some cs \<and> cs \<noteq> []
           \<and> (\<forall>st. processSections lower maxChunkSize overlap
                     \<lparr>chunks = [], globalCharIndex = 0, nextIndex = 0\<rparr> (sectionsOf text) = Some st
                   \<and> chunks st = []
                 \<longrightarrow> cs = [\<lparr>content = take (2 * maxChunkSize) (trim text),
                            sectionLabel = lit ''General'', chunkIndex = 0, startChar = 0,
                            endChar = length (take (2 * maxChunkSize) (trim text))\<rparr>])"
proof -
  from processSections_terminates[OF assms(2)] obtain st where
    st: "processSections lower maxChunkSize overlap
           \<lparr>chunks = [], globalCharIndex = 0, nextIndex = 0\<rparr> (sectionsOf text) = Some st"
    by blast
  from assms(1) have nb: "\<not> (text = [] \<or> length (trim text) = 0)"
    by (auto simp: trim_def)
  have "createHealthCheckChunks lower text maxChunkSize overlap =
      Some (if chunks st = [] then [fallbackChunk text maxChunkSize] else chunks st)"
    using st nb assms(1) by (simp add: createHealthCheckChunks_def)
  then show ?thesis using st fallback_fields[of "text" maxChunkSize] by auto
qed

theorem chunking_returns_a_chunk_witness:
  "trim (lit ''ok'') \<noteq> [] \<and> (0::nat) < 1500
   \<and> createHealthCheckChunks asciiLowerCase (lit ''ok'') 1500 200
       = Some [\<lparr>content = lit ''ok'', sectionLabel = lit ''General'', chunkIndex = 0,
                startChar = 0, endChar = 2\<rparr>]"
proof -
  have h1: "trim (lit ''ok'') \<noteq> []" by code_simp
  have h2: "(0::nat) < 1500" by simp
  have p: "processSections asciiLowerCase 1500 200
             \<lparr>chunks = [], globalCharIndex = 0, nextIndex = 0\<rparr> (sectionsOf (lit ''ok''))
           = Some \<lparr>chunks = [], globalCharIndex = 0, nextIndex = 0\<rparr>"
    by code_simp
  have t: "take (2 * 1500) (trim (lit ''ok'')) = lit ''ok''" by code_simp
  have l: "length (trim (lit ''ok'')) = 2" by code_simp
  from chunking_returns_a_chunk[OF h1 h2, of asciiLowerCase 200] obtain cs where
    cs: "createHealthCheckChunks asciiLowerCase (lit ''ok'') 1500 200 = Some cs"
    and fb: "\<forall>st. processSections asciiLowerCase 1500 200
                     \<lparr>chunks = [], globalCharIndex = 0, nextIndex = 0\<rparr> (sectionsOf (lit ''ok''))
                   = Some st \<and> chunks st = []
                 \<longrightarrow> cs = [\<lparr>content = take (2 * 1500) (trim (lit ''ok'')),
                            sectionLabel = lit ''General'', chunkIndex = 0, startChar = 0,
                            endChar = length (take (2 * 1500) (trim (lit ''ok'')))\<rparr>]"
    by blast
  from fb p have "cs = [\<lparr>content = take (2 * 1500) (trim (lit ''ok'')),
                            sectionLabel = lit ''General'', chunkIndex = 0, startChar = 0,
                            endChar = length (take (2 * 1500) (trim (lit ''ok'')))\<rparr>]"
    by simp
  with cs t l h1 h2 show ?thesis by simp
qed

text \<open>The claim as first stated fails at the string of one space.\<close>

theorem white_space_input_counterexample:
  "lit '' '' \<noteq> [] \<and> createHealthCheckChunks asciiLowerCase (lit '' '') 1500 200 = Some []"
  by code_simp

subsection \<open>C2: the split of a combined numeral\<close>




subsection \<open>C3: the order of the chunk indices\<close>

text \<open>
  C3. The \<^verbatim>\<open>chunkIndex\<close> values of one call, in emission order, increase strictly from 0.
  The source breaks this: for an oversized section in which the table detector fires and no
  table start is found, it calls \<^verbatim>\<open>splitLargeSection\<close> and drops the count it returns, where
  the sibling branch adds it to \<^verbatim>\<open>chunkIndex\<close>. On \<open>captionlessTableText\<close> with the default
  sizes the indices emitted are 0, 1, 2, 0. The text is a fixed point of the normalizer, so
  \<^verbatim>\<open>parseReport\<close> passes it to the chunker as it is.
\<close>

theorem chunk_index_repeats:
  "normalizeText captionlessTableText = captionlessTableText
   \<and> map_option (map chunkIndex)
       (createHealthCheckChunks asciiLowerCase captionlessTableText 1500 200) = Some [0, 1, 2, 0]"
  by code_simp

subsection \<open>C4: the upper bound on the size of a chunk\<close>

text \<open>
  C4. Every emitted chunk has a content of at most \<^verbatim>\<open>maxChunkSize\<close> characters, except: the
  fallback chunk, which has at most \<open>2 * maxChunkSize\<close>; the before-table chunk of an
  oversized table section; and the chunks labelled \<^verbatim>\<open>- Table Data\<close>, which have at most
  \<open>2 * maxChunkSize\<close> characters unless a table body longer than that was split by lines.
\<close>

theorem chunk_size_bounds:
  assumes "createHealthCheckChunks lower text maxChunkSize overlap = Some cs" and "c \<in> set cs"
  shows "length (content c) \<le> maxChunkSize
       \<or> (cs = [fallbackChunk text maxChunkSize] \<and> length (content c) \<le> 2 * maxChunkSize)
       \<or> (\<exists>sec \<in> set (sectionsOf text). takesTableBranch maxChunkSize sec \<and>
            (content c = beforeTableOf sec
             \<or> (hasTableSuffix (sectionLabel c)
                 \<and> (length (content c) \<le> 2 * maxChunkSize
                     \<or> 2 * maxChunkSize < length (tableBodyOf sec)))))"
proof -
  from create_cases[OF assms(1)] assms(2) obtain st where
    st: "processSections lower maxChunkSize overlap
           \<lparr>chunks = [], globalCharIndex = 0, nextIndex = 0\<rparr> (sectionsOf text) = Some st"
    and cs: "cs = (if chunks st = [] then [fallbackChunk text maxChunkSize] else chunks st)"
    by auto
  show ?thesis
  proof (cases "chunks st = []")
    case True
    with cs assms(2) fallback_length[of "text" maxChunkSize] show ?thesis by auto
  next
    case False
    with cs assms(2) have "c \<in> set (chunks st)" by simp
    with processSections_chunks[OF st] obtain sec where
      "sec \<in> set (sectionsOf text)" "emittedFor maxChunkSize sec c" by auto
    then show ?thesis unfolding emittedFor_def by blast
  qed
qed

theorem chunk_size_bounds_witness:
  "createHealthCheckChunks asciiLowerCase webhooksText 1500 200
     = Some [\<lparr>content = webhooksText, sectionLabel = lit ''Webhooks'', chunkIndex = 0,
              startChar = 0, endChar = 35\<rparr>]
   \<and> sectionsOf webhooksText = [webhooksText]
   \<and> takesTableBranch 1500 webhooksText = False
   \<and> (length webhooksText \<le> 1500
      \<or> ([\<lparr>content = webhooksText, sectionLabel = lit ''Webhooks'', chunkIndex = 0,
            startChar = 0, endChar = 35\<rparr>] = [fallbackChunk webhooksText 1500]
          \<and> length webhooksText \<le> 2 * 1500))"
proof -
  let ?c = "\<lparr>content = webhooksText, sectionLabel = lit ''Webhooks'', chunkIndex = 0,
             startChar = 0, endChar = 35\<rparr>"
  have h1: "createHealthCheckChunks asciiLowerCase webhooksText 1500 200 = Some [?c]"
    by code_simp
  have h2: "?c \<in> set [?c]" by simp
  have s: "sectionsOf webhooksText = [webhooksText]" by code_simp
  have n: "takesTableBranch 1500 webhooksText = False" by code_simp
  from chunk_size_bounds[OF h1 h2] s n
  have "length webhooksText \<le> 1500
      \<or> ([?c] = [fallbackChunk webhooksText 1500] \<and> length webhooksText \<le> 2 * 1500)"
    by simp
  with h1 s n show ?thesis by blast
qed

text \<open>
  The claim as first stated fails at the fallback chunk: 72 paragraphs of 19 characters are
  all skipped, and the fallback chunk holds the whole text, 1510 characters under the label
  \<^verbatim>\<open>General\<close>, with the default \<^verbatim>\<open>maxChunkSize\<close> of 1500.
\<close>

theorem fallback_chunk_size_counterexample:
  "map_option (map labelAndLength)
     (createHealthCheckChunks asciiLowerCase shortParagraphsText 1500 200)
     = Some [(lit ''General'', 1510)]
   \<and> \<not> hasTableSuffix (lit ''General'') \<and> (1500::nat) < 1510"
  by code_simp

subsection \<open>C5: the lower bound on the size of a chunk\<close>

text \<open>
  C5. Every emitted chunk whose label does not end in \<^verbatim>\<open>- Table Data\<close> has a content of at
  least 20 characters, unless the output is the single fallback chunk. The chunks of a table
  body carry no such bound.
\<close>

theorem chunk_min_length:
  assumes "createHealthCheckChunks lower text maxChunkSize overlap = Some cs" and "c \<in> set cs"
    and "\<not> hasTableSuffix (sectionLabel c)"
  shows "20 \<le> length (content c) \<or> cs = [fallbackChunk text maxChunkSize]"
proof -
  from create_cases[OF assms(1)] assms(2) obtain st where
    st: "processSections lower maxChunkSize overlap
           \<lparr>chunks = [], globalCharIndex = 0, nextIndex = 0\<rparr> (sectionsOf text) = Some st"
    and cs: "cs = (if chunks st = [] then [fallbackChunk text maxChunkSize] else chunks st)"
    by auto
  show ?thesis
  proof (cases "chunks st = []")
    case True
    with cs show ?thesis by simp
  next
    case False
    with cs assms(2) have "c \<in> set (chunks st)" by simp
    with processSections_chunks[OF st] obtain sec where
      "sec \<in> set (sectionsOf text)" "emittedFor maxChunkSize sec c" by auto
    with assms(3) show ?thesis unfolding emittedFor_def by auto
  qed
qed

theorem chunk_min_length_witness:
  "createHealthCheckChunks asciiLowerCase workflowsText 1500 200
     = Some [\<lparr>content = workflowsText, sectionLabel = lit ''Workflows'', chunkIndex = 0,
              startChar = 0, endChar = 41\<rparr>]
   \<and> \<not> hasTableSuffix (lit ''Workflows'')
   \<and> (20 \<le> length workflowsText
      \<or> [\<lparr>content = workflowsText, sectionLabel = lit ''Workflows'', chunkIndex = 0,
           startChar = 0, endChar = 41\<rparr>] = [fallbackChunk workflowsText 1500])"
proof -
  let ?c = "\<lparr>content = workflowsText, sectionLabel = lit ''Workflows'', chunkIndex = 0,
             startChar = 0, endChar = 41\<rparr>"
  have h1: "createHealthCheckChunks asciiLowerCase workflowsText 1500 200 = Some [?c]"
    by code_simp
  have h2: "?c \<in> set [?c]" by simp
  have h3: "\<not> hasTableSuffix (lit ''Workflows'')" by code_simp
  from h3 have h3': "\<not> hasTableSuffix (sectionLabel ?c)" by simp
  from chunk_min_length[OF h1 h2 h3']
  have "20 \<le> length workflowsText \<or> [?c] = [fallbackChunk workflowsText 1500]"
    by simp
  with h1 h3 show ?thesis by blast
qed

text \<open>
  The claim as first stated fails at a table body: for \<open>tableTailText\<close> the output is a
  before-table chunk and the chunk \<^verbatim>\<open>General - Table Data\<close> holding \<^verbatim>\<open>Displaying 5\<close>, 12
  characters.
\<close>

theorem short_table_chunk_counterexample:
  "map_option (map labelAndLength)
     (createHealthCheckChunks asciiLowerCase tableTailText 1500 200)
     = Some [(lit ''General'', 1501), (lit ''General - Table Data'', 12)]
   \<and> (12::nat) < 20"
  by code_simp

subsection \<open>C6: the normalizer is not idempotent\<close>

text \<open>
  C6. \<^verbatim>\<open>normalizeText\<close> is idempotent and its output has no run of three newlines. The source
  breaks this: it collapses the newlines before it trims the lines, so lines of white space
  leave a run of three newlines, which a second pass collapses.
\<close>

theorem normalize_twice_differs:
  "normalizeText blankLinesText = lit ''a\<newline>\<newline>\<newline>b''
   \<and> normalizeText (normalizeText blankLinesText) = lit ''a\<newline>\<newline>b''"
  by code_simp

subsection \<open>C7: the classifier returns the first matching label\<close>

text \<open>
  C7. \<^verbatim>\<open>identifyHealthCheckSection\<close> is a function of the first 300 characters of the
  lower-cased input: it returns the label of the first entry of the table, in declaration
  order, that has a pattern matching this window, and \<^verbatim>\<open>General\<close> when no pattern of any
  label matches. A window that matches a pattern of \<^verbatim>\<open>Content Modelling\<close> and a pattern of
  \<^verbatim>\<open>Entries\<close> is classified \<^verbatim>\<open>Content Modelling\<close>.
\<close>

theorem classifier_first_match:
  "identifyHealthCheckSection lower text
     = firstMatchingLabel sectionPatterns (inspectedWindow lower text)
   \<and> (\<not> matchesAnySection (inspectedWindow lower text)
        \<longrightarrow> identifyHealthCheckSection lower text = lit ''General'')
   \<and> (matchesSection (lit ''Content Modelling'') (inspectedWindow lower text)
        \<and> matchesSection (lit ''Entries'') (inspectedWindow lower text)
        \<longrightarrow> identifyHealthCheckSection lower text = lit ''Content Modelling'')"
proof -
  have a: "identifyHealthCheckSection lower text
      = firstMatchingLabel sectionPatterns (inspectedWindow lower text)"
    by (rule identify_window)
  have c: "identifyHealthCheckSection lower text = lit ''General''"
    if "\<not> matchesAnySection (inspectedWindow lower text)"
  proof -
    from that have "find (\<lambda>entry. list_ex (\<lambda>p. rxTest p (inspectedWindow lower text)) (snd entry))
        sectionPatterns = None"
      by (auto simp: find_None_iff matchesAnySection_def list_ex_iff)
    then show ?thesis by (simp add: a firstMatchingLabel_def)
  qed
  have d: "identifyHealthCheckSection lower text = lit ''Content Modelling''"
    if "matchesSection (lit ''Content Modelling'') (inspectedWindow lower text)"
  proof -
    from sectionPatterns_head obtain ps rest where
      "sectionPatterns = (lit ''Content Modelling'', ps) # rest"
      by blast
    from firstMatching_first[OF this that] show ?thesis by (simp add: a)
  qed
  show ?thesis using a c d by blast
qed

theorem classifier_first_match_witness:
  "matchesSection (lit ''Content Modelling'') (inspectedWindow asciiLowerCase modellingText)
   \<and> matchesSection (lit ''Entries'') (inspectedWindow asciiLowerCase modellingText)
   \<and> identifyHealthCheckSection asciiLowerCase modellingText = lit ''Content Modelling''
   \<and> \<not> matchesAnySection (inspectedWindow asciiLowerCase plainText)
   \<and> identifyHealthCheckSection asciiLowerCase plainText = lit ''General''"
proof -
  have h1: "matchesSection (lit ''Content Modelling'') (inspectedWindow asciiLowerCase modellingText)"
    by code_simp
  have h2: "matchesSection (lit ''Entries'') (inspectedWindow asciiLowerCase modellingText)"
    by code_simp
  have h3: "\<not> matchesAnySection (inspectedWindow asciiLowerCase plainText)"
    by code_simp
  from classifier_first_match[of asciiLowerCase modellingText] h1 h2
  have r1: "identifyHealthCheckSection asciiLowerCase modellingText = lit ''Content Modelling''"
    by blast
  from classifier_first_match[of asciiLowerCase plainText] h3
  have r2: "identifyHealthCheckSection asciiLowerCase plainText = lit ''General''"
    by blast
  from h1 h2 h3 r1 r2 show ?thesis by blast
qed

subsection \<open>C8: the proportional estimate of the breakdown\<close>




subsection \<open>C9: the end-to-end scenario\<close>

text \<open>
  C9. On the scenario text with \<^verbatim>\<open>maxChunkSize = 1500\<close> the chunker emits exactly two chunks:
  one labelled \<^verbatim>\<open>Stack Overview\<close> and one labelled \<^verbatim>\<open>Actions Required\<close>, which contains both
  \<^verbatim>\<open>Fix A\<close> and \<^verbatim>\<open>Good config\<close>; and \<^verbatim>\<open>extractHealthCheckMetrics\<close> sets \<^verbatim>\<open>stack\<close> to \<^verbatim>\<open>acme\<close>. No
  chunk is labelled \<^verbatim>\<open>Strengths\<close>: the text is not cut before \<^verbatim>\<open>Strengths\<close>, and the classifier
  has no such label.
\<close>

theorem scenario_chunks_and_stack:
  "createHealthCheckChunks asciiLowerCase scenarioText 1500 200
     = Some [\<lparr>content = scenarioOverview, sectionLabel = lit ''Stack Overview'', chunkIndex = 0,
              startChar = 0, endChar = 38\<rparr>,
             \<lparr>content = scenarioActions, sectionLabel = lit ''Actions Required'', chunkIndex = 1,
              startChar = 39, endChar = 162\<rparr>]
   \<and> stringIncludes scenarioActions (lit ''Fix A'')
   \<and> stringIncludes scenarioActions (lit ''Good config'')
   \<and> stack (extractHealthCheckMetrics asciiLowerCase scenarioText) = Some (lit ''acme'')"
  by code_simp

text \<open>The claim as first stated asks for a chunk labelled \<^verbatim>\<open>Strengths\<close>; there is none.\<close>

theorem scenario_strengths_counterexample:
  "map_option (map sectionLabel) (createHealthCheckChunks asciiLowerCase scenarioText 1500 200)
     = Some [lit ''Stack Overview'', lit ''Actions Required'']
   \<and> lit ''Strengths'' \<noteq> lit ''Stack Overview''
   \<and> lit ''Strengths'' \<noteq> lit ''Actions Required''"
  by code_simp

subsection \<open>C10: a blank text gives no chunk\<close>

text \<open>
  C10. For every input that is empty or trims to the empty string,
  \<^verbatim>\<open>createHealthCheckChunks\<close> returns the empty list: no fallback chunk, no error.
\<close>

theorem blank_input_gives_no_chunks:
  assumes "text = [] \<or> trim text = []"
  shows "createHealthCheckChunks lower text maxChunkSize overlap = Some []"
  using assms by (auto simp: createHealthCheckChunks_def trim_def)

theorem blank_input_gives_no_chunks_witness:
  "(lit '' \<newline> '' = [] \<or> trim (lit '' \<newline> '') = [])
   \<and> createHealthCheckChunks asciiLowerCase (lit '' \<newline> '') 1500 200 = Some []"
proof -
  have h: "lit '' \<newline> '' = [] \<or> trim (lit '' \<newline> '') = []" by code_simp
  from blank_input_gives_no_chunks[OF h, of asciiLowerCase 1500 200] h show ?thesis by blast
qed

end
